theory Spec2Isabelle
  imports Main "HOL-Library.Word"
begin

section \<open>Configuration kinds (package v1alpha1)\<close>

text \<open>
  \<^verbatim>\<open>const ApiVersion = "noisysockets.github.com/v1alpha1"\<close>
\<close>

definition ApiVersion :: string where
  "ApiVersion = ''noisysockets.github.com/v1alpha1''"

text \<open>
  Modelled from the spec: \<^verbatim>\<open>types.TypeMeta\<close> is declared outside the given sources; a
  configuration document carries an API version and a kind, so the embedded struct is
  taken to hold these two strings.
\<close>

record TypeMeta =
  APIVersion :: string
  Kind :: string

record PeerConfig =
  pc_Name :: string
  pc_PublicKey :: string
  pc_Endpoint :: string
  pc_IPs :: "string list"
  pc_DefaultGateway :: bool

record Config =
  TypeMeta :: TypeMeta
  Name :: string
  ListenPort :: "16 word"
  PrivateKey :: string
  IPs :: "string list"
  DNSServers :: "string list"
  Peers :: "PeerConfig list"

text \<open>The value of the composite literal \<^verbatim>\<open>Config{}\<close>: every field at its zero value.\<close>

definition zero_Config :: Config where
  "zero_Config =
     \<lparr>TypeMeta = \<lparr>APIVersion = [], Kind = []\<rparr>, Name = [], ListenPort = 0,
      PrivateKey = [], IPs = [], DNSServers = [], Peers = []\<rparr>"

definition GetKind :: "Config \<Rightarrow> string" where
  "GetKind c = ''Config''"

definition GetAPIVersion :: "Config \<Rightarrow> string" where
  "GetAPIVersion c = ApiVersion"

datatype config_error = errUnsupportedKind string

text \<open>
  \<^verbatim>\<open>switch kind { case "Config": return &Config{}, nil
                 default: return nil, fmt.Errorf("unsupported kind: %s", kind) }\<close>
\<close>

definition GetConfigByKind :: "string \<Rightarrow> config_error + Config" where
  "GetConfigByKind kind =
     (if kind = ''Config'' then Inr zero_Config else Inl (errUnsupportedKind kind))"


section \<open>The peer directory (package noisysockets)\<close>

type_synonym bytes = "8 word list"

text \<open>
  The three Go maps of \<^verbatim>\<open>peerDirectory\<close>. A \<^verbatim>\<open>types.NoisePublicKey\<close> is a byte
  array; \<^verbatim>\<open>netip.Addr\<close> is a comparable library value and stays a type parameter.
\<close>

record 'addr peerDirectory =
  peerNames :: "string \<rightharpoonup> bytes"
  peerAddresses :: "bytes \<rightharpoonup> 'addr list"
  fromPeerAddress :: "'addr \<rightharpoonup> bytes"

definition newPeerDirectory :: "'addr peerDirectory" where
  "newPeerDirectory =
     \<lparr>peerNames = Map.empty, peerAddresses = Map.empty, fromPeerAddress = Map.empty\<rparr>"

datatype 'addr directory_error = errAddressInUse 'addr

text \<open>
  The \<^verbatim>\<open>for _, addr := range addrs\<close> loop of \<^verbatim>\<open>AddPeer\<close>: it returns at the first
  address found in \<^verbatim>\<open>fromPeerAddress\<close>, keeping the entries written so far.
\<close>

fun AddPeer_loop ::
  "'addr peerDirectory \<Rightarrow> bytes \<Rightarrow> 'addr list \<Rightarrow> 'addr peerDirectory \<times> 'addr directory_error option"
where
  "AddPeer_loop pd publicKey [] = (pd, None)"
| "AddPeer_loop pd publicKey (addr # addrs) =
     (if fromPeerAddress pd addr \<noteq> None then (pd, Some (errAddressInUse addr))
      else AddPeer_loop (pd\<lparr>fromPeerAddress := (fromPeerAddress pd)(addr \<mapsto> publicKey)\<rparr>)
             publicKey addrs)"

definition AddPeer ::
  "'addr peerDirectory \<Rightarrow> string \<Rightarrow> bytes \<Rightarrow> 'addr list
     \<Rightarrow> 'addr peerDirectory \<times> 'addr directory_error option"
where
  "AddPeer pd name publicKey addrs =
     (let pd1 = (if name \<noteq> [] then pd\<lparr>peerNames := (peerNames pd)(name \<mapsto> publicKey)\<rparr> else pd);
          pd2 = pd1\<lparr>peerAddresses := (peerAddresses pd1)(publicKey \<mapsto> addrs)\<rparr>
      in AddPeer_loop pd2 publicKey addrs)"

text \<open>A directory holding one peer, \<open>alpha\<close>, with the addresses 10 and 11.\<close>

definition directory_alpha :: "nat peerDirectory" where
  "directory_alpha = fst (AddPeer newPeerDirectory ''alpha'' [1] [10, 11])"


section \<open>Wire messages (package transport)\<close>

text \<open>Sizes of the library and package types the message structs are built from.\<close>

definition uint32_size :: nat where "uint32_size = 4"
definition uint64_size :: nat where "uint64_size = 8"
definition poly1305_TagSize :: nat where "poly1305_TagSize = 16"
definition blake2s_Size :: nat where "blake2s_Size = 32"
definition blake2s_Size128 :: nat where "blake2s_Size128 = 16"
definition chacha20poly1305_KeySize :: nat where "chacha20poly1305_KeySize = 32"
definition chacha20poly1305_NonceSize :: nat where "chacha20poly1305_NonceSize = 12"
definition chacha20poly1305_NonceSizeX :: nat where "chacha20poly1305_NonceSizeX = 24"

text \<open>
  Modelled from the spec: \<^verbatim>\<open>types.NoisePublicKeySize\<close> and \<^verbatim>\<open>tai64n.TimestampSize\<close>
  are declared outside the given sources; the spec gives a public key 32 bytes and a
  TAI64N timestamp 12 bytes.
\<close>

definition NoisePublicKeySize :: nat where "NoisePublicKeySize = 32"
definition tai64n_TimestampSize :: nat where "tai64n_TimestampSize = 12"

definition MessageInitiationType :: "32 word" where "MessageInitiationType = 1"
definition MessageResponseType :: "32 word" where "MessageResponseType = 2"
definition MessageCookieReplyType :: "32 word" where "MessageCookieReplyType = 3"
definition MessageTransportType :: "32 word" where "MessageTransportType = 4"

definition MessageInitiationSize :: nat where "MessageInitiationSize = 148"
definition MessageResponseSize :: nat where "MessageResponseSize = 92"
definition MessageCookieReplySize :: nat where "MessageCookieReplySize = 64"
definition MessageTransportHeaderSize :: nat where "MessageTransportHeaderSize = 16"
definition MessageTransportSize :: nat where
  "MessageTransportSize = MessageTransportHeaderSize + poly1305_TagSize"
definition MessageKeepaliveSize :: nat where "MessageKeepaliveSize = MessageTransportSize"
definition MessageHandshakeSize :: nat where "MessageHandshakeSize = MessageInitiationSize"

definition MessageTransportOffsetReceiver :: nat where "MessageTransportOffsetReceiver = 4"
definition MessageTransportOffsetCounter :: nat where "MessageTransportOffsetCounter = 8"
definition MessageTransportOffsetContent :: nat where "MessageTransportOffsetContent = 16"

text \<open>
  The field lists of the four message structs, in declaration order, each field with the
  number of bytes its type occupies. \<^verbatim>\<open>MessageTransport.Content\<close> is a slice, so only
  the fields before it have a fixed size.
\<close>

definition MessageInitiation_fields :: "(string \<times> nat) list" where
  "MessageInitiation_fields =
     [(''Type'', uint32_size), (''Sender'', uint32_size), (''Ephemeral'', NoisePublicKeySize),
      (''Static'', NoisePublicKeySize + poly1305_TagSize),
      (''Timestamp'', tai64n_TimestampSize + poly1305_TagSize),
      (''MAC1'', blake2s_Size128), (''MAC2'', blake2s_Size128)]"

definition MessageResponse_fields :: "(string \<times> nat) list" where
  "MessageResponse_fields =
     [(''Type'', uint32_size), (''Sender'', uint32_size), (''Receiver'', uint32_size),
      (''Ephemeral'', NoisePublicKeySize), (''Empty'', poly1305_TagSize),
      (''MAC1'', blake2s_Size128), (''MAC2'', blake2s_Size128)]"

definition MessageCookieReply_fields :: "(string \<times> nat) list" where
  "MessageCookieReply_fields =
     [(''Type'', uint32_size), (''Receiver'', uint32_size),
      (''Nonce'', chacha20poly1305_NonceSizeX),
      (''Cookie'', blake2s_Size128 + poly1305_TagSize)]"

definition MessageTransport_header_fields :: "(string \<times> nat) list" where
  "MessageTransport_header_fields =
     [(''Type'', uint32_size), (''Receiver'', uint32_size), (''Counter'', uint64_size)]"

text \<open>Bytes of a message whose fields are laid out one after the other.\<close>

definition wire_size :: "(string \<times> nat) list \<Rightarrow> nat" where
  "wire_size fs = sum_list (map snd fs)"

text \<open>Byte offset of a field: the bytes of the fields declared before it.\<close>

definition wire_offset :: "(string \<times> nat) list \<Rightarrow> string \<Rightarrow> nat" where
  "wire_offset fs name = wire_size (takeWhile (\<lambda>f. fst f \<noteq> name) fs)"


section \<open>The Noise handshake (package transport)\<close>

subsection \<open>Data\<close>

datatype handshakeState =
  handshakeZeroed
| handshakeInitiationCreated
| handshakeInitiationConsumed
| handshakeResponseCreated
| handshakeResponseConsumed

text \<open>
  The errors of the handshake routines: \<^verbatim>\<open>errInvalidPublicKey\<close>, the two errors built
  in place (\<^verbatim>\<open>errors.New("handshake initiation must be consumed first")\<close> and
  \<^verbatim>\<open>fmt.Errorf("invalid state for keypair derivation: %v", handshake.state)\<close>), and the
  errors handed up from callees outside this file.
\<close>

datatype error =
  errInvalidPublicKey
| errInitiationNotConsumed
| errInvalidDerivationState handshakeState
| errExternal string

record MessageInitiation =
  Type :: "32 word"
  Sender :: "32 word"
  Ephemeral :: bytes
  Static :: bytes
  Timestamp :: bytes
  MAC1 :: bytes
  MAC2 :: bytes

record MessageResponse =
  r_Type :: "32 word"
  r_Sender :: "32 word"
  r_Receiver :: "32 word"
  r_Ephemeral :: bytes
  r_Empty :: bytes
  r_MAC1 :: bytes
  r_MAC2 :: bytes

text \<open>
  \<^verbatim>\<open>tai64n.Timestamp\<close> is a byte array; \<^verbatim>\<open>time.Time\<close> and \<^verbatim>\<open>time.Duration\<close> are
  counted in nanoseconds. The mutex of the struct is left out: each routine is modelled
  as running alone.
\<close>

record Handshake =
  state :: handshakeState
  hash :: bytes
  chainKey :: bytes
  presharedKey :: bytes
  localEphemeral :: bytes
  localIndex :: "32 word"
  remoteIndex :: "32 word"
  remoteStatic :: bytes
  remoteEphemeral :: bytes
  precomputedStaticStatic :: bytes
  lastTimestamp :: bytes
  lastInitiationConsumption :: int
  lastSentHandshake :: int

text \<open>
  A \<^verbatim>\<open>*Keypair\<close> is a reference into the store of allocated keypairs, \<open>None\<close> for
  \<^verbatim>\<open>nil\<close>. The two AEAD instances of a keypair are given by their keys.
\<close>

type_synonym keypair_ref = "nat option"

record Keypair =
  send :: bytes
  receive :: bytes
  created :: int
  isInitiator :: bool
  kp_localIndex :: "32 word"
  kp_remoteIndex :: "32 word"

record Keypairs =
  current :: keypair_ref
  previous :: keypair_ref
  "next" :: keypair_ref

record Peer =
  isRunning :: bool
  handshake :: Handshake
  keypairs :: Keypairs

text \<open>
  Modelled from the spec: the index table and its entry type are declared outside the
  given sources. An entry binds an index to (peer, handshake) during the handshake and to
  (peer, keypair) afterwards; the routines read its fields \<^verbatim>\<open>peer\<close> and
  \<^verbatim>\<open>handshake\<close>. A \<^verbatim>\<open>*Peer\<close> is a reference into the store of peers, and a
  \<^verbatim>\<open>*Handshake\<close> is the reference of the peer that holds the struct.
\<close>

record IndexTableEntry =
  entry_peer :: "nat option"
  entry_handshake :: "nat option"
  entry_keypair :: keypair_ref

type_synonym IndexTable = "32 word \<rightharpoonup> IndexTableEntry"

text \<open>
  The part of \<^verbatim>\<open>Transport\<close> the handshake routines use: the static identity, the
  index table, the peers registered by public key, and the objects that \<^verbatim>\<open>*Peer\<close>
  and \<^verbatim>\<open>*Keypair\<close> point to. \<open>keypairAlloc\<close> is the reference the next
  \<^verbatim>\<open>new(Keypair)\<close> returns.
\<close>

record Transport =
  staticIdentity_privateKey :: bytes
  staticIdentity_publicKey :: bytes
  indexTable :: IndexTable
  peerMap :: "bytes \<rightharpoonup> nat"
  peerStore :: "nat \<Rightarrow> Peer"
  keypairStore :: "nat \<Rightarrow> Keypair"
  keypairAlloc :: nat

text \<open>
  The primitives the routines call and the given sources do not hold: BLAKE2s-256, the
  three KDFs, the Curve25519 operations and ChaCha20-Poly1305. They are parameters of the
  model; \<open>sharedSecret\<close> and \<open>aead_Open\<close> can fail.
\<close>

record primitives =
  blake2s_Sum256 :: "bytes \<Rightarrow> bytes"
  KDF1 :: "bytes \<Rightarrow> bytes \<Rightarrow> bytes"
  KDF2 :: "bytes \<Rightarrow> bytes \<Rightarrow> bytes \<times> bytes"
  KDF3 :: "bytes \<Rightarrow> bytes \<Rightarrow> bytes \<times> bytes \<times> bytes"
  sharedSecret :: "bytes \<Rightarrow> bytes \<Rightarrow> error + bytes"
  PublicKey :: "bytes \<Rightarrow> bytes"
  aead_Seal :: "bytes \<Rightarrow> bytes \<Rightarrow> bytes \<Rightarrow> bytes \<Rightarrow> bytes"
  aead_Open :: "bytes \<Rightarrow> bytes \<Rightarrow> bytes \<Rightarrow> bytes \<Rightarrow> bytes option"

subsection \<open>Helpers\<close>

definition bytes_of_string :: "string \<Rightarrow> bytes" where
  "bytes_of_string s = map of_char s"

definition NoiseConstruction :: string where
  "NoiseConstruction = ''Noise_IKpsk2_25519_ChaChaPoly_BLAKE2s''"

definition NoiseIdentifier :: string where
  "NoiseIdentifier = ''WireGuard v1 zx2c4 Jason@zx2c4.com''"

definition ZeroNonce :: bytes where
  "ZeroNonce = replicate chacha20poly1305_NonceSize 0"

definition mixKey :: "primitives \<Rightarrow> bytes \<Rightarrow> bytes \<Rightarrow> bytes" where
  "mixKey P c data = KDF1 P c data"

definition mixHash :: "primitives \<Rightarrow> bytes \<Rightarrow> bytes \<Rightarrow> bytes" where
  "mixHash P h data = blake2s_Sum256 P (h @ data)"

text \<open>The values \<^verbatim>\<open>init()\<close> computes.\<close>

definition InitialChainKey :: "primitives \<Rightarrow> bytes" where
  "InitialChainKey P = blake2s_Sum256 P (bytes_of_string NoiseConstruction)"

definition InitialHash :: "primitives \<Rightarrow> bytes" where
  "InitialHash P = mixHash P (InitialChainKey P) (bytes_of_string NoiseIdentifier)"

definition Handshake_mixHash :: "primitives \<Rightarrow> Handshake \<Rightarrow> bytes \<Rightarrow> Handshake" where
  "Handshake_mixHash P h data = h\<lparr>hash := mixHash P (hash h) data\<rparr>"

definition Handshake_mixKey :: "primitives \<Rightarrow> Handshake \<Rightarrow> bytes \<Rightarrow> Handshake" where
  "Handshake_mixKey P h data = h\<lparr>chainKey := mixKey P (chainKey h) data\<rparr>"

text \<open>
  Modelled from the spec: \<^verbatim>\<open>isZero\<close> and \<^verbatim>\<open>setZero\<close> are helpers outside the given
  sources. The spec rejects a static-static secret that is all-zero, and has the
  handshake secrets zeroed: \<open>isZero\<close> holds when every byte is 0, and \<open>setZero\<close>
  overwrites every byte with 0.
\<close>

definition isZero :: "bytes \<Rightarrow> bool" where
  "isZero val = list_all (\<lambda>b. b = 0) val"

definition setZero :: "bytes \<Rightarrow> bytes" where
  "setZero arr = replicate (length arr) 0"

text \<open>
  Modelled from the spec: \<^verbatim>\<open>tai64n.Timestamp.After\<close> is outside the given sources. The
  spec calls an initiation a replay when its TAI64N timestamp is \<open>\<le>\<close> the last one
  accepted; a TAI64N label is a big-endian number, so timestamps are compared by the
  number their bytes spell.
\<close>

definition be_nat :: "bytes \<Rightarrow> nat" where
  "be_nat bs = foldl (\<lambda>n b. 256 * n + unat b) 0 bs"

definition tai64n_After :: "bytes \<Rightarrow> bytes \<Rightarrow> bool" where
  "tai64n_After t1 t2 = (be_nat t2 < be_nat t1)"

text \<open>
  The library's \<^verbatim>\<open>time.Time.After\<close> and \<^verbatim>\<open>time.Since\<close>: the latter is the difference
  to the current time as a \<^verbatim>\<open>Duration\<close>, a signed 64-bit count that saturates.
\<close>

definition time_After :: "int \<Rightarrow> int \<Rightarrow> bool" where
  "time_After t u = (u < t)"

definition minDuration :: int where "minDuration = - (2 ^ 63)"
definition maxDuration :: int where "maxDuration = 2 ^ 63 - 1"

definition time_Since :: "int \<Rightarrow> int \<Rightarrow> int" where
  "time_Since now t =
     (let d = now - t
      in if d < minDuration then minDuration else if maxDuration < d then maxDuration else d)"

subsection \<open>The index table and the registries\<close>

text \<open>
  Modelled from the spec: the operations of the index table are outside the given
  sources. \<open>Delete\<close> is idempotent; \<open>Lookup\<close> is a read, giving the zero entry for an
  index that is not bound; \<open>SwapIndexForKeypair\<close> replaces the binding of an index by
  the keypair; \<open>NewIndexForHandshake\<close> draws a random 32-bit value and retries on
  collision. The random source is the list of the values it yields; when the list is used
  up the read fails, and the call returns that error with index 0.
\<close>

definition Delete :: "IndexTable \<Rightarrow> 32 word \<Rightarrow> IndexTable" where
  "Delete table index = table(index := None)"

definition Lookup :: "IndexTable \<Rightarrow> 32 word \<Rightarrow> IndexTableEntry" where
  "Lookup table index =
     (case table index of
        None \<Rightarrow> \<lparr>entry_peer = None, entry_handshake = None, entry_keypair = None\<rparr>
      | Some e \<Rightarrow> e)"

definition SwapIndexForKeypair :: "IndexTable \<Rightarrow> 32 word \<Rightarrow> nat \<Rightarrow> IndexTable" where
  "SwapIndexForKeypair table index kp =
     (case table index of
        None \<Rightarrow> table
      | Some e \<Rightarrow> table(index \<mapsto> e\<lparr>entry_handshake := None, entry_keypair := Some kp\<rparr>))"

fun NewIndexForHandshake ::
  "IndexTable \<Rightarrow> nat \<Rightarrow> nat \<Rightarrow> 32 word list \<Rightarrow> (32 word \<times> error option) \<times> IndexTable"
where
  "NewIndexForHandshake table peer hs [] = ((0, Some (errExternal ''rand'')), table)"
| "NewIndexForHandshake table peer hs (index # draws) =
     (if table index \<noteq> None then NewIndexForHandshake table peer hs draws
      else ((index, None),
            table(index \<mapsto> \<lparr>entry_peer = Some peer, entry_handshake = Some hs,
                              entry_keypair = None\<rparr>)))"

text \<open>
  Modelled from the spec: \<^verbatim>\<open>Transport.LookupPeer\<close> is outside the given sources; it
  finds a peer by its static public key.
\<close>

definition LookupPeer :: "Transport \<Rightarrow> bytes \<Rightarrow> nat option" where
  "LookupPeer transport pk = peerMap transport pk"

text \<open>
  Modelled from the spec: \<^verbatim>\<open>Transport.DeleteKeypair\<close> is outside the given sources. A
  keypair is deleted by revoking its index and zeroing its AEAD keys; the callers pass
  \<^verbatim>\<open>nil\<close> for an empty slot, which deletes nothing.
\<close>

definition DeleteKeypair :: "Transport \<Rightarrow> keypair_ref \<Rightarrow> Transport" where
  "DeleteKeypair transport key =
     (case key of
        None \<Rightarrow> transport
      | Some k \<Rightarrow>
          (let kp = keypairStore transport k
           in transport\<lparr>indexTable := Delete (indexTable transport) (kp_localIndex kp),
                         keypairStore := (keypairStore transport)
                           (k := kp\<lparr>send := setZero (send kp), receive := setZero (receive kp)\<rparr>)\<rparr>))"

text \<open>Reading and writing the structs behind a \<^verbatim>\<open>*Peer\<close>.\<close>

definition peer_handshake :: "Transport \<Rightarrow> nat \<Rightarrow> Handshake" where
  "peer_handshake transport p = handshake (peerStore transport p)"

definition set_handshake :: "Transport \<Rightarrow> nat \<Rightarrow> Handshake \<Rightarrow> Transport" where
  "set_handshake transport p h =
     transport\<lparr>peerStore := (peerStore transport)(p := (peerStore transport p)\<lparr>handshake := h\<rparr>)\<rparr>"

definition peer_keypairs :: "Transport \<Rightarrow> nat \<Rightarrow> Keypairs" where
  "peer_keypairs transport p = keypairs (peerStore transport p)"

definition set_keypairs :: "Transport \<Rightarrow> nat \<Rightarrow> Keypairs \<Rightarrow> Transport" where
  "set_keypairs transport p ks =
     transport\<lparr>peerStore := (peerStore transport)(p := (peerStore transport p)\<lparr>keypairs := ks\<rparr>)\<rparr>"

definition set_current :: "Transport \<Rightarrow> nat \<Rightarrow> keypair_ref \<Rightarrow> Transport" where
  "set_current transport p v = set_keypairs transport p ((peer_keypairs transport p)\<lparr>current := v\<rparr>)"

definition set_previous :: "Transport \<Rightarrow> nat \<Rightarrow> keypair_ref \<Rightarrow> Transport" where
  "set_previous transport p v = set_keypairs transport p ((peer_keypairs transport p)\<lparr>previous := v\<rparr>)"

definition set_next :: "Transport \<Rightarrow> nat \<Rightarrow> keypair_ref \<Rightarrow> Transport" where
  "set_next transport p v = set_keypairs transport p ((peer_keypairs transport p)\<lparr>next := v\<rparr>)"

subsection \<open>Creating and consuming the initiation\<close>

text \<open>
  \<open>CreateMessageInitiation\<close>. Besides the transport and the peer, the arguments are what
  the routine obtains from its environment: the result of \<^verbatim>\<open>types.NewPrivateKey()\<close>
  (a key and an error), the value of \<^verbatim>\<open>tai64n.Now()\<close>, and the random source of the
  index table. The handshake is changed in place, so writes made before an error stay.
\<close>

definition CreateMessageInitiation ::
  "primitives \<Rightarrow> Transport \<Rightarrow> nat \<Rightarrow> bytes \<times> error option \<Rightarrow> bytes \<Rightarrow> 32 word list
     \<Rightarrow> (error + MessageInitiation) \<times> Transport"
where
  "CreateMessageInitiation P transport peer newPrivateKey now draws =
     (let hs = peer_handshake transport peer;
          hs = hs\<lparr>hash := InitialHash P, chainKey := InitialChainKey P,
                   localEphemeral := fst newPrivateKey\<rparr>
      in case snd newPrivateKey of
           Some err \<Rightarrow> (Inl err, set_handshake transport peer hs)
         | None \<Rightarrow>
      (let hs = Handshake_mixHash P hs (remoteStatic hs);
           msg = \<lparr>Type = MessageInitiationType, Sender = 0,
                   Ephemeral = PublicKey P (localEphemeral hs),
                   Static = replicate (NoisePublicKeySize + poly1305_TagSize) 0,
                   Timestamp = replicate (tai64n_TimestampSize + poly1305_TagSize) 0,
                   MAC1 = replicate blake2s_Size128 0, MAC2 = replicate blake2s_Size128 0\<rparr>;
           hs = Handshake_mixKey P hs (Ephemeral msg);
           hs = Handshake_mixHash P hs (Ephemeral msg)
       in case sharedSecret P (localEphemeral hs) (remoteStatic hs) of
            Inl err \<Rightarrow> (Inl err, set_handshake transport peer hs)
          | Inr ss \<Rightarrow>
      (let (ck, key) = KDF2 P (chainKey hs) ss;
           hs = hs\<lparr>chainKey := ck\<rparr>;
           msg = msg\<lparr>Static := aead_Seal P key ZeroNonce (staticIdentity_publicKey transport)
                                 (hash hs)\<rparr>;
           hs = Handshake_mixHash P hs (Static msg)
       in if isZero (precomputedStaticStatic hs)
          then (Inl errInvalidPublicKey, set_handshake transport peer hs)
          else
      (let (ck, key) = KDF2 P (chainKey hs) (precomputedStaticStatic hs);
           hs = hs\<lparr>chainKey := ck\<rparr>;
           timestamp = now;
           msg = msg\<lparr>Timestamp := aead_Seal P key ZeroNonce timestamp (hash hs)\<rparr>;
           table = Delete (indexTable transport) (localIndex hs);
           ((index, err), table) = NewIndexForHandshake table peer peer draws;
           transport = transport\<lparr>indexTable := table\<rparr>;
           msg = msg\<lparr>Sender := index\<rparr>
       in case err of
            Some e \<Rightarrow> (Inl e, set_handshake transport peer hs)
          | None \<Rightarrow>
      (let hs = hs\<lparr>localIndex := Sender msg\<rparr>;
           hs = Handshake_mixHash P hs (Timestamp msg);
           hs = hs\<lparr>state := handshakeInitiationCreated\<rparr>
       in (Inr msg, set_handshake transport peer hs))))))"

text \<open>
  \<open>ConsumeMessageInitiation\<close>. \<open>HandshakeInitationRate\<close> is a constant declared outside
  the given sources and is a parameter; \<open>clock\<close> is the time read by \<^verbatim>\<open>time.Since\<close>
  and \<open>now\<close> the one read by \<^verbatim>\<open>time.Now()\<close> before the commit. The result is the
  \<^verbatim>\<open>*Peer\<close> returned, \<open>None\<close> for \<^verbatim>\<open>nil\<close>.
\<close>

definition ConsumeMessageInitiation ::
  "primitives \<Rightarrow> int \<Rightarrow> Transport \<Rightarrow> MessageInitiation \<Rightarrow> int \<Rightarrow> int
     \<Rightarrow> nat option \<times> Transport"
where
  "ConsumeMessageInitiation P HandshakeInitationRate transport msg clock now =
     (if Type msg \<noteq> MessageInitiationType then (None, transport)
      else
      (let hash1 = mixHash P (InitialHash P) (staticIdentity_publicKey transport);
           hash2 = mixHash P hash1 (Ephemeral msg);
           chainKey1 = mixKey P (InitialChainKey P) (Ephemeral msg)
       in case sharedSecret P (staticIdentity_privateKey transport) (Ephemeral msg) of
            Inl err \<Rightarrow> (None, transport)
          | Inr ss \<Rightarrow>
      (let (chainKey2, key) = KDF2 P chainKey1 ss
       in case aead_Open P key ZeroNonce (Static msg) hash2 of
            None \<Rightarrow> (None, transport)
          | Some peerPK \<Rightarrow>
      (let hash3 = mixHash P hash2 (Static msg)
       in case LookupPeer transport peerPK of
            None \<Rightarrow> (None, transport)
          | Some peer \<Rightarrow>
      if \<not> isRunning (peerStore transport peer) then (None, transport)
      else
      (let hs = peer_handshake transport peer
       in if isZero (precomputedStaticStatic hs) then (None, transport)
          else
      (let (chainKey3, key) = KDF2 P chainKey2 (precomputedStaticStatic hs)
       in case aead_Open P key ZeroNonce (Timestamp msg) hash3 of
            None \<Rightarrow> (None, transport)
          | Some timestamp \<Rightarrow>
      (let hash4 = mixHash P hash3 (Timestamp msg);
           replay = (\<not> tai64n_After timestamp (lastTimestamp hs));
           flood = (time_Since clock (lastInitiationConsumption hs) \<le> HandshakeInitationRate)
       in if replay then (None, transport)
          else if flood then (None, transport)
          else
      (let hs = hs\<lparr>hash := hash4, chainKey := chainKey3, remoteIndex := Sender msg,
                    remoteEphemeral := Ephemeral msg\<rparr>;
           hs = (if tai64n_After timestamp (lastTimestamp hs)
                 then hs\<lparr>lastTimestamp := timestamp\<rparr> else hs);
           hs = (if time_After now (lastInitiationConsumption hs)
                 then hs\<lparr>lastInitiationConsumption := now\<rparr> else hs);
           hs = hs\<lparr>state := handshakeInitiationConsumed\<rparr>
       in (Some peer, set_handshake transport peer hs)))))))))"

subsection \<open>Creating and consuming the response\<close>

definition CreateMessageResponse ::
  "primitives \<Rightarrow> Transport \<Rightarrow> nat \<Rightarrow> 32 word list \<Rightarrow> bytes \<times> error option
     \<Rightarrow> (error + MessageResponse) \<times> Transport"
where
  "CreateMessageResponse P transport peer draws newPrivateKey =
     (let hs = peer_handshake transport peer
      in if state hs \<noteq> handshakeInitiationConsumed
         then (Inl errInitiationNotConsumed, transport)
         else
      (let table = Delete (indexTable transport) (localIndex hs);
           ((index, err), table) = NewIndexForHandshake table peer peer draws;
           transport = transport\<lparr>indexTable := table\<rparr>;
           hs = hs\<lparr>localIndex := index\<rparr>
       in case err of
            Some e \<Rightarrow> (Inl e, set_handshake transport peer hs)
          | None \<Rightarrow>
      (let msg = \<lparr>r_Type = MessageResponseType, r_Sender = localIndex hs,
                   r_Receiver = remoteIndex hs,
                   r_Ephemeral = replicate NoisePublicKeySize 0,
                   r_Empty = replicate poly1305_TagSize 0,
                   r_MAC1 = replicate blake2s_Size128 0, r_MAC2 = replicate blake2s_Size128 0\<rparr>;
           hs = hs\<lparr>localEphemeral := fst newPrivateKey\<rparr>
       in case snd newPrivateKey of
            Some e \<Rightarrow> (Inl e, set_handshake transport peer hs)
          | None \<Rightarrow>
      (let msg = msg\<lparr>r_Ephemeral := PublicKey P (localEphemeral hs)\<rparr>;
           hs = Handshake_mixHash P hs (r_Ephemeral msg);
           hs = Handshake_mixKey P hs (r_Ephemeral msg)
       in case sharedSecret P (localEphemeral hs) (remoteEphemeral hs) of
            Inl e \<Rightarrow> (Inl e, set_handshake transport peer hs)
          | Inr ss \<Rightarrow>
      (let hs = Handshake_mixKey P hs ss
       in case sharedSecret P (localEphemeral hs) (remoteStatic hs) of
            Inl e \<Rightarrow> (Inl e, set_handshake transport peer hs)
          | Inr ss \<Rightarrow>
      (let hs = Handshake_mixKey P hs ss;
           (ck, tau, key) = KDF3 P (chainKey hs) (presharedKey hs);
           hs = hs\<lparr>chainKey := ck\<rparr>;
           hs = Handshake_mixHash P hs tau;
           msg = msg\<lparr>r_Empty := aead_Seal P key ZeroNonce [] (hash hs)\<rparr>;
           hs = Handshake_mixHash P hs (r_Empty msg);
           hs = hs\<lparr>state := handshakeResponseCreated\<rparr>
       in (Inr msg, set_handshake transport peer hs)))))))"

text \<open>
  The function literal \<^verbatim>\<open>ok := func() bool {...}()\<close> of \<open>ConsumeMessageResponse\<close>: it
  returns \<^verbatim>\<open>false\<close> (here \<open>None\<close>) or leaves the new hash and chain key in the two
  local arrays.
\<close>

definition ConsumeMessageResponse_ok ::
  "primitives \<Rightarrow> Transport \<Rightarrow> Handshake \<Rightarrow> MessageResponse \<Rightarrow> (bytes \<times> bytes) option"
where
  "ConsumeMessageResponse_ok P transport hs msg =
     (if state hs \<noteq> handshakeInitiationCreated then None
      else
      (let hash1 = mixHash P (hash hs) (r_Ephemeral msg);
           chainKey1 = mixKey P (chainKey hs) (r_Ephemeral msg)
       in case sharedSecret P (localEphemeral hs) (r_Ephemeral msg) of
            Inl err \<Rightarrow> None
          | Inr ss \<Rightarrow>
      (let chainKey2 = mixKey P chainKey1 ss
       in case sharedSecret P (staticIdentity_privateKey transport) (r_Ephemeral msg) of
            Inl err \<Rightarrow> None
          | Inr ss \<Rightarrow>
      (let chainKey3 = mixKey P chainKey2 ss;
           (chainKey4, tau, key) = KDF3 P chainKey3 (presharedKey hs);
           hash2 = mixHash P hash1 tau
       in case aead_Open P key ZeroNonce (r_Empty msg) hash2 of
            None \<Rightarrow> None
          | Some plaintext \<Rightarrow> Some (mixHash P hash2 (r_Empty msg), chainKey4)))))"

definition ConsumeMessageResponse ::
  "primitives \<Rightarrow> Transport \<Rightarrow> MessageResponse \<Rightarrow> nat option \<times> Transport"
where
  "ConsumeMessageResponse P transport msg =
     (if r_Type msg \<noteq> MessageResponseType then (None, transport)
      else
      (let lookup = Lookup (indexTable transport) (r_Receiver msg)
       in case entry_handshake lookup of
            None \<Rightarrow> (None, transport)
          | Some h \<Rightarrow>
              (case ConsumeMessageResponse_ok P transport (peer_handshake transport h) msg of
                 None \<Rightarrow> (None, transport)
               | Some (hash', chainKey') \<Rightarrow>
                   (entry_peer lookup,
                    set_handshake transport h
                      ((peer_handshake transport h)
                         \<lparr>hash := hash', chainKey := chainKey', remoteIndex := r_Sender msg,
                          state := handshakeResponseConsumed\<rparr>)))))"

subsection \<open>Keypairs\<close>

text \<open>
  The block \<^verbatim>\<open>// rotate key pairs\<close> of \<open>BeginSymmetricSession\<close>, for the new keypair
  \<open>keypair\<close>. The three slots are read first; the writes and deletions follow in the
  order of the source.
\<close>

definition BeginSymmetricSession_rotate :: "Transport \<Rightarrow> nat \<Rightarrow> bool \<Rightarrow> nat \<Rightarrow> Transport" where
  "BeginSymmetricSession_rotate transport peer isInit keypair =
     (let previous0 = previous (peer_keypairs transport peer);
          next0 = next (peer_keypairs transport peer);
          current0 = current (peer_keypairs transport peer)
      in if isInit then
           (let transport =
                  (if next0 \<noteq> None then
                     (let transport = set_next transport peer None;
                          transport = set_previous transport peer next0
                      in DeleteKeypair transport current0)
                   else set_previous transport peer current0);
                transport = DeleteKeypair transport previous0
            in set_current transport peer (Some keypair))
         else
           (let transport = set_next transport peer (Some keypair);
                transport = DeleteKeypair transport next0;
                transport = set_previous transport peer None
            in DeleteKeypair transport previous0))"

text \<open>
  \<open>BeginSymmetricSession\<close>; \<open>now\<close> is the value of \<^verbatim>\<open>time.Now()\<close>. The replay filter
  of the new keypair is not modelled. The result is the error returned, \<open>None\<close> for
  \<^verbatim>\<open>nil\<close>.
\<close>

definition BeginSymmetricSession ::
  "primitives \<Rightarrow> Transport \<Rightarrow> nat \<Rightarrow> int \<Rightarrow> error option \<times> Transport"
where
  "BeginSymmetricSession P transport peer now =
     (let hs = peer_handshake transport peer
      in case (if state hs = handshakeResponseConsumed then
                 (let (sendKey, recvKey) = KDF2 P (chainKey hs) [] in Some (True, sendKey, recvKey))
               else if state hs = handshakeResponseCreated then
                 (let (recvKey, sendKey) = KDF2 P (chainKey hs) [] in Some (False, sendKey, recvKey))
               else None) of
           None \<Rightarrow> (Some (errInvalidDerivationState (state hs)), transport)
         | Some (isInit, sendKey, recvKey) \<Rightarrow>
      (let hs = hs\<lparr>chainKey := setZero (chainKey hs)\<rparr>;
           hs = hs\<lparr>hash := setZero (hash hs)\<rparr>;
           hs = hs\<lparr>localEphemeral := setZero (localEphemeral hs)\<rparr>;
           hs = hs\<lparr>state := handshakeZeroed\<rparr>;
           keypair = \<lparr>send = sendKey, receive = recvKey, created = now, isInitiator = isInit,
                       kp_localIndex = localIndex hs, kp_remoteIndex = remoteIndex hs\<rparr>;
           k = keypairAlloc transport;
           transport = transport\<lparr>keypairStore := (keypairStore transport)(k := keypair),
                                  keypairAlloc := Suc k\<rparr>;
           transport = transport\<lparr>indexTable :=
                                    SwapIndexForKeypair (indexTable transport) (localIndex hs) k\<rparr>;
           hs = hs\<lparr>localIndex := 0\<rparr>;
           transport = set_handshake transport peer hs
       in (None, BeginSymmetricSession_rotate transport peer isInit k)))"

definition ReceivedWithKeypair :: "Transport \<Rightarrow> nat \<Rightarrow> keypair_ref \<Rightarrow> bool \<times> Transport" where
  "ReceivedWithKeypair transport peer receivedKeypair =
     (if next (peer_keypairs transport peer) \<noteq> receivedKeypair then (False, transport)
      else if next (peer_keypairs transport peer) \<noteq> receivedKeypair then (False, transport)
      else
        (let old = previous (peer_keypairs transport peer);
             transport = set_previous transport peer (current (peer_keypairs transport peer));
             transport = DeleteKeypair transport old;
             transport = set_current transport peer (next (peer_keypairs transport peer));
             transport = set_next transport peer None
         in (True, transport)))"

subsection \<open>Deleted keypairs, allocated references\<close>

text \<open>
  What \<open>DeleteKeypair\<close> leaves of a keypair: its index is bound to nothing and its two
  keys are zero. An empty slot holds nothing to delete.
\<close>

definition keypair_deleted :: "Transport \<Rightarrow> keypair_ref \<Rightarrow> bool" where
  "keypair_deleted transport key =
     (case key of
        None \<Rightarrow> True
      | Some k \<Rightarrow>
          indexTable transport (kp_localIndex (keypairStore transport k)) = None \<and>
          isZero (send (keypairStore transport k)) \<and>
          isZero (receive (keypairStore transport k)))"

text \<open>
  A slot refers to a keypair that \<^verbatim>\<open>new(Keypair)\<close> has returned before: in the program a
  pointer in a slot is never the one a later allocation returns.
\<close>

definition ref_allocated :: "Transport \<Rightarrow> keypair_ref \<Rightarrow> bool" where
  "ref_allocated transport key = (case key of None \<Rightarrow> True | Some k \<Rightarrow> k < keypairAlloc transport)"

definition keypairs_allocated :: "Transport \<Rightarrow> nat \<Rightarrow> bool" where
  "keypairs_allocated transport p =
     (ref_allocated transport (current (peer_keypairs transport p)) \<and>
      ref_allocated transport (previous (peer_keypairs transport p)) \<and>
      ref_allocated transport (next (peer_keypairs transport p)))"

subsection \<open>A small instance\<close>

text \<open>
  Primitives over one-byte values, for running the routines on concrete inputs: the hash
  and the KDFs are byte sums, a public key is three times the private key, the shared
  secret is the product (an error when it is zero), and the AEAD appends a one-byte tag
  over key, nonce, plaintext and additional data.
\<close>

definition toy_primitives :: primitives where
  "toy_primitives =
     \<lparr>blake2s_Sum256 = (\<lambda>m. [sum_list m]),
      KDF1 = (\<lambda>k x. [sum_list (k @ x) + 1]),
      KDF2 = (\<lambda>k x. ([sum_list (k @ x) + 1], [sum_list (k @ x) + 2])),
      KDF3 = (\<lambda>k x. ([sum_list (k @ x) + 1], [sum_list (k @ x) + 2], [sum_list (k @ x) + 3])),
      sharedSecret = (\<lambda>sk pk. if sum_list sk * sum_list pk = 0 then Inl errInvalidPublicKey
                                else Inr [sum_list sk * sum_list pk]),
      PublicKey = (\<lambda>sk. [3 * sum_list sk]),
      aead_Seal = (\<lambda>key nonce plaintext ad. plaintext @ [sum_list (key @ nonce @ plaintext @ ad)]),
      aead_Open = (\<lambda>key nonce ciphertext ad.
                     if ciphertext \<noteq> [] \<and>
                        last ciphertext = sum_list (key @ nonce @ butlast ciphertext @ ad)
                     then Some (butlast ciphertext) else None)\<rparr>"

text \<open>
  A transport with private key 2 (public key 6) and one running peer, number 0, whose
  static public key is 9 (private key 3), so that the static-static secret is 18. The
  peer holds the keypairs 0, 1 and 2 in its slots; keypair \<open>k\<close> has the index \<open>10 + k\<close>,
  and index 7 is bound to the handshake of the peer.
\<close>

definition example_handshake :: Handshake where
  "example_handshake =
     \<lparr>state = handshakeZeroed, hash = [0], chainKey = [0], presharedKey = [0],
      localEphemeral = [0], localIndex = 7, remoteIndex = 0, remoteStatic = [9],
      remoteEphemeral = [0], precomputedStaticStatic = [18], lastTimestamp = [0, 5],
      lastInitiationConsumption = 1000, lastSentHandshake = 0\<rparr>"

definition example_peer :: Peer where
  "example_peer =
     \<lparr>isRunning = True, handshake = example_handshake,
      keypairs = \<lparr>current = Some 0, previous = Some 1, next = Some 2\<rparr>\<rparr>"

definition example_keypair :: "nat \<Rightarrow> Keypair" where
  "example_keypair k =
     \<lparr>send = [1], receive = [2], created = 0, isInitiator = False,
      kp_localIndex = 10 + of_nat k, kp_remoteIndex = 0\<rparr>"

definition example_table :: IndexTable where
  "example_table =
     [7 \<mapsto> \<lparr>entry_peer = Some 0, entry_handshake = Some 0, entry_keypair = None\<rparr>,
      10 \<mapsto> \<lparr>entry_peer = Some 0, entry_handshake = None, entry_keypair = Some 0\<rparr>,
      11 \<mapsto> \<lparr>entry_peer = Some 0, entry_handshake = None, entry_keypair = Some 1\<rparr>,
      12 \<mapsto> \<lparr>entry_peer = Some 0, entry_handshake = None, entry_keypair = Some 2\<rparr>]"

definition example_transport :: Transport where
  "example_transport =
     \<lparr>staticIdentity_privateKey = [2], staticIdentity_publicKey = [6],
      indexTable = example_table, peerMap = [[9] \<mapsto> 0],
      peerStore = (\<lambda>p. example_peer), keypairStore = example_keypair, keypairAlloc = 3\<rparr>"

text \<open>The example transport with the handshake of peer 0 in a given state.\<close>

definition example_in_state :: "handshakeState \<Rightarrow> Transport" where
  "example_in_state s = set_handshake example_transport 0 (example_handshake\<lparr>state := s\<rparr>)"

text \<open>The same with the next slot of peer 0 empty.\<close>

definition example_no_next :: "handshakeState \<Rightarrow> Transport" where
  "example_no_next s = set_next (example_in_state s) 0 None"

text \<open>
  The transport of the other side: private key 3 (public key 9), with one running peer,
  number 0, whose static public key is 6.
\<close>

definition responder_handshake :: Handshake where
  "responder_handshake =
     \<lparr>state = handshakeZeroed, hash = [0], chainKey = [0], presharedKey = [0],
      localEphemeral = [0], localIndex = 0, remoteIndex = 0, remoteStatic = [6],
      remoteEphemeral = [0], precomputedStaticStatic = [18], lastTimestamp = [0, 5],
      lastInitiationConsumption = 1000, lastSentHandshake = 0\<rparr>"

definition responder_peer :: Peer where
  "responder_peer =
     \<lparr>isRunning = True, handshake = responder_handshake,
      keypairs = \<lparr>current = None, previous = None, next = None\<rparr>\<rparr>"

definition responder_transport :: Transport where
  "responder_transport =
     \<lparr>staticIdentity_privateKey = [3], staticIdentity_publicKey = [9],
      indexTable = Map.empty, peerMap = [[6] \<mapsto> 0],
      peerStore = (\<lambda>p. responder_peer), keypairStore = example_keypair, keypairAlloc = 0\<rparr>"

text \<open>
  The initiation the example transport creates for its peer with the ephemeral private
  key 4, the timestamp \<open>[0, 9]\<close> and the index 7, and the response the other side
  creates to it with the ephemeral private key 5 and the index 40.
\<close>

definition example_initiation :: MessageInitiation where
  "example_initiation =
     \<lparr>Type = 1, Sender = 7, Ephemeral = [12], Static = [6, 165], Timestamp = [0, 9, 102],
      MAC1 = replicate 16 0, MAC2 = replicate 16 0\<rparr>"

definition example_response :: MessageResponse where
  "example_response =
     \<lparr>r_Type = 2, r_Sender = 40, r_Receiver = 7, r_Ephemeral = [15], r_Empty = [80],
      r_MAC1 = replicate 16 0, r_MAC2 = replicate 16 0\<rparr>"

text \<open>The example transport after it has created that initiation.\<close>

definition example_initiator :: Transport where
  "example_initiator =
     set_handshake example_transport 0
       (example_handshake\<lparr>state := handshakeInitiationCreated, hash := [50], chainKey := [153],
                           localEphemeral := [4]\<rparr>)"

subsection \<open>The transcript of the response\<close>

text \<open>
  The values the local variables of \<open>ConsumeMessageResponse\<close> hold for the handshake
  \<open>hs\<close> and the message \<open>msg\<close> when the two shared secrets are \<open>ss1\<close> and \<open>ss2\<close>:
  the three outputs of \<^verbatim>\<open>KDF3\<close>, the hash the empty payload is authenticated against,
  and the hash after the payload is mixed in.
\<close>

definition response_KDF3 ::
  "primitives \<Rightarrow> Handshake \<Rightarrow> MessageResponse \<Rightarrow> bytes \<Rightarrow> bytes \<Rightarrow> bytes \<times> bytes \<times> bytes"
where
  "response_KDF3 P hs msg ss1 ss2 =
     KDF3 P (mixKey P (mixKey P (mixKey P (chainKey hs) (r_Ephemeral msg)) ss1) ss2)
       (presharedKey hs)"

definition response_chainKey ::
  "primitives \<Rightarrow> Handshake \<Rightarrow> MessageResponse \<Rightarrow> bytes \<Rightarrow> bytes \<Rightarrow> bytes"
where
  "response_chainKey P hs msg ss1 ss2 = fst (response_KDF3 P hs msg ss1 ss2)"

definition response_tau ::
  "primitives \<Rightarrow> Handshake \<Rightarrow> MessageResponse \<Rightarrow> bytes \<Rightarrow> bytes \<Rightarrow> bytes"
where
  "response_tau P hs msg ss1 ss2 = fst (snd (response_KDF3 P hs msg ss1 ss2))"

definition response_key ::
  "primitives \<Rightarrow> Handshake \<Rightarrow> MessageResponse \<Rightarrow> bytes \<Rightarrow> bytes \<Rightarrow> bytes"
where
  "response_key P hs msg ss1 ss2 = snd (snd (response_KDF3 P hs msg ss1 ss2))"

definition response_auth_hash ::
  "primitives \<Rightarrow> Handshake \<Rightarrow> MessageResponse \<Rightarrow> bytes \<Rightarrow> bytes \<Rightarrow> bytes"
where
  "response_auth_hash P hs msg ss1 ss2 =
     mixHash P (mixHash P (hash hs) (r_Ephemeral msg)) (response_tau P hs msg ss1 ss2)"

definition response_hash ::
  "primitives \<Rightarrow> Handshake \<Rightarrow> MessageResponse \<Rightarrow> bytes \<Rightarrow> bytes \<Rightarrow> bytes"
where
  "response_hash P hs msg ss1 ss2 =
     mixHash P (response_auth_hash P hs msg ss1 ss2) (r_Empty msg)"

text \<open>The other side after it has consumed the example initiation.\<close>

definition responder_consumed :: Transport where
  "responder_consumed =
     set_handshake responder_transport 0
       (responder_handshake\<lparr>state := handshakeInitiationConsumed, hash := [50],
          chainKey := [153], remoteIndex := 7, remoteEphemeral := [12],
          lastTimestamp := [0, 9], lastInitiationConsumption := 1025\<rparr>)"

text \<open>The example transport with an all-zero static-static secret for its peer.\<close>

definition example_zero_static :: Transport where
  "example_zero_static =
     set_handshake example_transport 0 (example_handshake\<lparr>precomputedStaticStatic := [0, 0]\<rparr>)"

subsection \<open>The transcript of the initiation\<close>

text \<open>
  The values the local variables of \<open>ConsumeMessageInitiation\<close> hold for the message
  \<open>msg\<close>, the shared secret \<open>ss\<close> and the precomputed static-static secret \<open>pss\<close>:
  the hash the static key is authenticated against and the key it is opened with, the
  same for the timestamp, and the hash and chain key that are committed.
\<close>

definition initiation_static_hash :: "primitives \<Rightarrow> Transport \<Rightarrow> MessageInitiation \<Rightarrow> bytes" where
  "initiation_static_hash P transport msg =
     mixHash P (mixHash P (InitialHash P) (staticIdentity_publicKey transport)) (Ephemeral msg)"

definition initiation_static_KDF2 ::
  "primitives \<Rightarrow> MessageInitiation \<Rightarrow> bytes \<Rightarrow> bytes \<times> bytes"
where
  "initiation_static_KDF2 P msg ss = KDF2 P (mixKey P (InitialChainKey P) (Ephemeral msg)) ss"

definition initiation_static_key :: "primitives \<Rightarrow> MessageInitiation \<Rightarrow> bytes \<Rightarrow> bytes" where
  "initiation_static_key P msg ss = snd (initiation_static_KDF2 P msg ss)"

definition initiation_timestamp_hash ::
  "primitives \<Rightarrow> Transport \<Rightarrow> MessageInitiation \<Rightarrow> bytes"
where
  "initiation_timestamp_hash P transport msg =
     mixHash P (initiation_static_hash P transport msg) (Static msg)"

definition initiation_timestamp_KDF2 ::
  "primitives \<Rightarrow> MessageInitiation \<Rightarrow> bytes \<Rightarrow> bytes \<Rightarrow> bytes \<times> bytes"
where
  "initiation_timestamp_KDF2 P msg ss pss = KDF2 P (fst (initiation_static_KDF2 P msg ss)) pss"

definition initiation_timestamp_key ::
  "primitives \<Rightarrow> MessageInitiation \<Rightarrow> bytes \<Rightarrow> bytes \<Rightarrow> bytes"
where
  "initiation_timestamp_key P msg ss pss = snd (initiation_timestamp_KDF2 P msg ss pss)"

definition initiation_chainKey ::
  "primitives \<Rightarrow> MessageInitiation \<Rightarrow> bytes \<Rightarrow> bytes \<Rightarrow> bytes"
where
  "initiation_chainKey P msg ss pss = fst (initiation_timestamp_KDF2 P msg ss pss)"

definition initiation_hash :: "primitives \<Rightarrow> Transport \<Rightarrow> MessageInitiation \<Rightarrow> bytes" where
  "initiation_hash P transport msg =
     mixHash P (initiation_timestamp_hash P transport msg) (Timestamp msg)"

text \<open>
  The rejection conditions in the words of the specification: the type is not 1, the
  static AEAD fails, the peer lookup by the decrypted static key misses or the peer is
  not running, the precomputed static-static secret is zero, the timestamp AEAD fails,
  the decrypted timestamp is \<open>\<le>\<close> the last timestamp, or the time since the last
  consumption is \<open><\<close> the initiation rate. The list has no condition for a message whose
  shared secret cannot be computed.
\<close>

definition listed_rejection ::
  "primitives \<Rightarrow> int \<Rightarrow> Transport \<Rightarrow> MessageInitiation \<Rightarrow> int \<Rightarrow> bool"
where
  "listed_rejection P HandshakeInitiationRate transport msg clock =
     (Type msg \<noteq> 1 \<or>
      (case sharedSecret P (staticIdentity_privateKey transport) (Ephemeral msg) of
         Inl err \<Rightarrow> False
       | Inr ss \<Rightarrow>
           (case aead_Open P (initiation_static_key P msg ss) ZeroNonce (Static msg)
                   (initiation_static_hash P transport msg) of
              None \<Rightarrow> True
            | Some peerPK \<Rightarrow>
                (case LookupPeer transport peerPK of
                   None \<Rightarrow> True
                 | Some peer \<Rightarrow>
                     (let hs = peer_handshake transport peer
                      in \<not> isRunning (peerStore transport peer) \<or>
                         isZero (precomputedStaticStatic hs) \<or>
                         (case aead_Open P
                                 (initiation_timestamp_key P msg ss (precomputedStaticStatic hs))
                                 ZeroNonce (Timestamp msg)
                                 (initiation_timestamp_hash P transport msg) of
                            None \<Rightarrow> True
                          | Some timestamp \<Rightarrow>
                              be_nat timestamp \<le> be_nat (lastTimestamp hs) \<or>
                              clock - lastInitiationConsumption hs < HandshakeInitiationRate))))))"


section \<open>Results\<close>

subsection \<open>Configuration kinds\<close>

text \<open>
  Claim C9. For every kind string, \<open>GetConfigByKind\<close> returns a Config value exactly
  when the kind is \<open>Config\<close> and an error for every other kind; every Config value
  reports kind \<open>Config\<close> and API version \<open>noisysockets.github.com/v1alpha1\<close>.
\<close>

theorem GetConfigByKind_only_Config:
  "((\<exists>c. GetConfigByKind k = Inr c) \<longleftrightarrow> k = ''Config'') \<and>
   ((\<exists>e. GetConfigByKind k = Inl e) \<longleftrightarrow> k \<noteq> ''Config'') \<and>
   GetKind c = ''Config'' \<and>
   GetAPIVersion c = ''noisysockets.github.com/v1alpha1''"
  by (simp add: GetConfigByKind_def GetKind_def GetAPIVersion_def ApiVersion_def)

theorem GetConfigByKind_only_Config_witness:
  "GetConfigByKind ''Config'' = Inr zero_Config \<and>
   GetConfigByKind ''Peer'' = Inl (errUnsupportedKind ''Peer'') \<and>
   GetKind zero_Config = ''Config'' \<and>
   GetAPIVersion zero_Config = ''noisysockets.github.com/v1alpha1''"
  using GetConfigByKind_only_Config [of "''Config''" zero_Config]
        GetConfigByKind_only_Config [of "''Peer''" zero_Config]
  by (simp add: GetConfigByKind_def)

subsection \<open>Wire sizes\<close>

text \<open>
  Claim C8. The declared message sizes are the sums of the field sizes: an initiation is
  148 = 4 + 4 + 32 + (32 + 16) + (12 + 16) + 16 + 16 bytes, a response 92 bytes, a cookie
  reply 64 bytes; a transport message has a 16-byte header with the type at offset 0, the
  receiver at offset 4, the 8-byte counter at offset 8 and the content at offset 16, and
  an empty transport message is the header and a 16-byte tag.
\<close>

theorem message_sizes_match_layout:
  "MessageInitiationSize = wire_size MessageInitiation_fields \<and>
   MessageInitiationSize = 4 + 4 + 32 + (32 + 16) + (12 + 16) + 16 + 16 \<and>
   map snd MessageInitiation_fields = [4, 4, 32, 32 + 16, 12 + 16, 16, 16] \<and>
   MessageResponseSize = wire_size MessageResponse_fields \<and>
   MessageResponseSize = 4 + 4 + 4 + 32 + (0 + 16) + 16 + 16 \<and>
   MessageCookieReplySize = wire_size MessageCookieReply_fields \<and>
   MessageCookieReplySize = 4 + 4 + 24 + (16 + 16) \<and>
   MessageTransportHeaderSize = wire_size MessageTransport_header_fields \<and>
   MessageTransportHeaderSize = 16 \<and>
   wire_offset MessageTransport_header_fields ''Type'' = 0 \<and>
   wire_offset MessageTransport_header_fields ''Receiver'' = MessageTransportOffsetReceiver \<and>
   MessageTransportOffsetReceiver = 4 \<and>
   wire_offset MessageTransport_header_fields ''Counter'' = MessageTransportOffsetCounter \<and>
   MessageTransportOffsetCounter = 8 \<and>
   uint64_size = 8 \<and>
   wire_offset MessageTransport_header_fields ''Content'' = MessageTransportOffsetContent \<and>
   MessageTransportOffsetContent = 16 \<and>
   MessageTransportSize = MessageTransportHeaderSize + 16"
  by (simp add: MessageInitiationSize_def MessageResponseSize_def MessageCookieReplySize_def
      MessageTransportHeaderSize_def MessageTransportSize_def
      MessageTransportOffsetReceiver_def MessageTransportOffsetCounter_def
      MessageTransportOffsetContent_def
      MessageInitiation_fields_def MessageResponse_fields_def MessageCookieReply_fields_def
      MessageTransport_header_fields_def wire_size_def wire_offset_def
      uint32_size_def uint64_size_def poly1305_TagSize_def blake2s_Size128_def
      chacha20poly1305_NonceSizeX_def NoisePublicKeySize_def tai64n_TimestampSize_def)

subsection \<open>The peer directory\<close>

lemma AddPeer_loop_names:
  "peerNames (fst (AddPeer_loop pd pk as)) = peerNames pd"
  "peerAddresses (fst (AddPeer_loop pd pk as)) = peerAddresses pd"
  by (induction as arbitrary: pd) simp_all

lemma AddPeer_loop_in_use:
  "\<exists>a\<in>set as. fromPeerAddress pd a \<noteq> None \<Longrightarrow> snd (AddPeer_loop pd pk as) \<noteq> None"
proof (induction as arbitrary: pd)
  case Nil
  then show ?case by simp
next
  case (Cons x xs)
  show ?case
  proof (cases "fromPeerAddress pd x = None")
    case False
    then show ?thesis by simp
  next
    case True
    with Cons.prems obtain a where a: "a \<in> set xs" "fromPeerAddress pd a \<noteq> None"
      by auto
    let ?pd = "pd\<lparr>fromPeerAddress := (fromPeerAddress pd)(x \<mapsto> pk)\<rparr>"
    from a have "\<exists>a\<in>set xs. fromPeerAddress ?pd a \<noteq> None"
      by auto
    from Cons.IH [OF this] True show ?thesis by simp
  qed
qed

lemma AddPeer_loop_entry:
  "fromPeerAddress (fst (AddPeer_loop pd pk as)) b = Some pk \<or>
   fromPeerAddress (fst (AddPeer_loop pd pk as)) b = fromPeerAddress pd b"
proof (induction as arbitrary: pd)
  case Nil
  then show ?case by simp
next
  case (Cons x xs)
  let ?pd = "pd\<lparr>fromPeerAddress := (fromPeerAddress pd)(x \<mapsto> pk)\<rparr>"
  from Cons.IH [of ?pd] show ?case
    by (cases "b = x") auto
qed

lemma AddPeer_loop_ok:
  "snd (AddPeer_loop pd pk as) = None \<Longrightarrow> b \<in> set as \<Longrightarrow>
     fromPeerAddress (fst (AddPeer_loop pd pk as)) b = Some pk"
proof (induction as arbitrary: pd)
  case Nil
  then show ?case by simp
next
  case (Cons x xs)
  let ?pd = "pd\<lparr>fromPeerAddress := (fromPeerAddress pd)(x \<mapsto> pk)\<rparr>"
  from Cons.prems(1) have free: "fromPeerAddress pd x = None"
    by (auto split: if_splits)
  with Cons.prems(1) have ok: "snd (AddPeer_loop ?pd pk xs) = None"
    by simp
  show ?case
  proof (cases "b \<in> set xs")
    case True
    from Cons.IH [OF ok True] free show ?thesis by simp
  next
    case False
    with Cons.prems(2) have "b = x" by simp
    with AddPeer_loop_entry [of ?pd pk xs x] free show ?thesis by simp
  qed
qed

lemma AddPeer_loop_error:
  "snd (AddPeer_loop pd pk as) = Some (errAddressInUse a) \<Longrightarrow>
     \<exists>pre post. as = pre @ a # post \<and> distinct pre \<and>
       (\<forall>b\<in>set pre. fromPeerAddress pd b = None \<and>
                     fromPeerAddress (fst (AddPeer_loop pd pk as)) b = Some pk) \<and>
       (fromPeerAddress pd a \<noteq> None \<or> a \<in> set pre)"
proof (induction as arbitrary: pd)
  case Nil
  then show ?case by simp
next
  case (Cons x xs)
  let ?pd = "pd\<lparr>fromPeerAddress := (fromPeerAddress pd)(x \<mapsto> pk)\<rparr>"
  show ?case
  proof (cases "fromPeerAddress pd x = None")
    case False
    with Cons.prems have "x = a" by simp
    with False have "x # xs = [] @ a # xs \<and> distinct [] \<and>
       (\<forall>b\<in>set []. fromPeerAddress pd b = None \<and>
                     fromPeerAddress (fst (AddPeer_loop pd pk (x # xs))) b = Some pk) \<and>
       (fromPeerAddress pd a \<noteq> None \<or> a \<in> set [])"
      by simp
    then show ?thesis by blast
  next
    case True
    with Cons.prems have err: "snd (AddPeer_loop ?pd pk xs) = Some (errAddressInUse a)"
      by simp
    from Cons.IH [OF err] obtain pre post where
      split: "xs = pre @ a # post" and dist: "distinct pre" and
      pre: "\<forall>b\<in>set pre. fromPeerAddress ?pd b = None \<and>
              fromPeerAddress (fst (AddPeer_loop ?pd pk xs)) b = Some pk" and
      dup: "fromPeerAddress ?pd a \<noteq> None \<or> a \<in> set pre"
      by blast
    from pre have notin: "x \<notin> set pre" by auto
    have res: "fst (AddPeer_loop pd pk (x # xs)) = fst (AddPeer_loop ?pd pk xs)"
      using True by simp
    have xreg: "fromPeerAddress (fst (AddPeer_loop ?pd pk xs)) x = Some pk"
      using AddPeer_loop_entry [of ?pd pk xs x] by simp
    have "x # xs = (x # pre) @ a # post"
      using split by simp
    moreover have "distinct (x # pre)"
      using dist notin by simp
    moreover have "\<forall>b\<in>set (x # pre). fromPeerAddress pd b = None \<and>
        fromPeerAddress (fst (AddPeer_loop pd pk (x # xs))) b = Some pk"
      using pre True xreg res by (auto split: if_splits)
    moreover have "fromPeerAddress pd a \<noteq> None \<or> a \<in> set (x # pre)"
      using dup by (auto split: if_splits)
    ultimately show ?thesis by blast
  qed
qed

lemma AddPeer_as_loop:
  "\<exists>pd2. AddPeer pd name pk addrs = AddPeer_loop pd2 pk addrs \<and>
         fromPeerAddress pd2 = fromPeerAddress pd \<and>
         peerAddresses pd2 pk = Some addrs \<and>
         (name \<noteq> [] \<longrightarrow> peerNames pd2 name = Some pk)"
proof (cases "name = []")
  case True
  let ?pd2 = "pd\<lparr>peerAddresses := (peerAddresses pd)(pk \<mapsto> addrs)\<rparr>"
  have "AddPeer pd name pk addrs = AddPeer_loop ?pd2 pk addrs"
    using True by (simp add: AddPeer_def)
  with True show ?thesis
    by (intro exI [of _ ?pd2]) simp
next
  case False
  let ?pd2 = "pd\<lparr>peerNames := (peerNames pd)(name \<mapsto> pk),
                 peerAddresses := (peerAddresses pd)(pk \<mapsto> addrs)\<rparr>"
  have "AddPeer pd name pk addrs = AddPeer_loop ?pd2 pk addrs"
    using False by (simp add: AddPeer_def)
  then show ?thesis
    by (intro exI [of _ ?pd2]) simp
qed

lemma AddPeer_in_use:
  assumes "\<exists>a\<in>set addrs. fromPeerAddress pd a \<noteq> None"
  shows "snd (AddPeer pd name pk addrs) \<noteq> None"
proof -
  from AddPeer_as_loop obtain pd2 where
    pd2: "AddPeer pd name pk addrs = AddPeer_loop pd2 pk addrs" and
    same: "fromPeerAddress pd2 = fromPeerAddress pd"
    by blast
  from assms same have "\<exists>a\<in>set addrs. fromPeerAddress pd2 a \<noteq> None"
    by simp
  from AddPeer_loop_in_use [OF this] pd2 show ?thesis
    by simp
qed

text \<open>
  Claim C10. \<open>AddPeer\<close> returns an error whenever one of the addresses is already
  registered, also to the same public key, so that adding a peer a second time with a
  non-empty address list fails. The update is not undone: after the error the name (when
  not empty) still maps to the key, the key to the whole address list, and every address
  before the first one that was already in use to the key.
\<close>

theorem AddPeer_error_not_atomic:
  "((\<exists>a\<in>set addrs. fromPeerAddress pd a \<noteq> None) \<longrightarrow>
      snd (AddPeer pd name pk addrs) \<noteq> None) \<and>
   (addrs \<noteq> [] \<and> snd (AddPeer pd name pk addrs) = None \<longrightarrow>
      (\<forall>a\<in>set addrs. fromPeerAddress (fst (AddPeer pd name pk addrs)) a = Some pk) \<and>
      snd (AddPeer (fst (AddPeer pd name pk addrs)) name pk addrs) \<noteq> None) \<and>
   (snd (AddPeer pd name pk addrs) = Some (errAddressInUse a) \<longrightarrow>
      (name \<noteq> [] \<longrightarrow> peerNames (fst (AddPeer pd name pk addrs)) name = Some pk) \<and>
      peerAddresses (fst (AddPeer pd name pk addrs)) pk = Some addrs \<and>
      (\<exists>pre post. addrs = pre @ a # post \<and> distinct pre \<and>
         (\<forall>b\<in>set pre. fromPeerAddress pd b = None \<and>
                       fromPeerAddress (fst (AddPeer pd name pk addrs)) b = Some pk) \<and>
         (fromPeerAddress pd a \<noteq> None \<or> a \<in> set pre)))"
proof -
  from AddPeer_as_loop obtain pd2 where
    pd2: "AddPeer pd name pk addrs = AddPeer_loop pd2 pk addrs" and
    same: "fromPeerAddress pd2 = fromPeerAddress pd" and
    addrs2: "peerAddresses pd2 pk = Some addrs" and
    name2: "name \<noteq> [] \<longrightarrow> peerNames pd2 name = Some pk"
    by blast
  have in_use: "(\<exists>a\<in>set addrs. fromPeerAddress pd a \<noteq> None) \<longrightarrow>
      snd (AddPeer pd name pk addrs) \<noteq> None"
    using AddPeer_in_use [of addrs pd name pk] by blast
  have again: "addrs \<noteq> [] \<and> snd (AddPeer pd name pk addrs) = None \<longrightarrow>
      (\<forall>a\<in>set addrs. fromPeerAddress (fst (AddPeer pd name pk addrs)) a = Some pk) \<and>
      snd (AddPeer (fst (AddPeer pd name pk addrs)) name pk addrs) \<noteq> None"
  proof
    assume ok: "addrs \<noteq> [] \<and> snd (AddPeer pd name pk addrs) = None"
    then have reg: "\<forall>a\<in>set addrs. fromPeerAddress (fst (AddPeer pd name pk addrs)) a = Some pk"
      using AddPeer_loop_ok [of pd2 pk addrs] pd2 by simp
    from ok obtain a where "a \<in> set addrs"
      by (cases addrs) auto
    with reg have "\<exists>a\<in>set addrs. fromPeerAddress (fst (AddPeer pd name pk addrs)) a \<noteq> None"
      by auto
    then have "snd (AddPeer (fst (AddPeer pd name pk addrs)) name pk addrs) \<noteq> None"
      by (rule AddPeer_in_use)
    with reg show "(\<forall>a\<in>set addrs. fromPeerAddress (fst (AddPeer pd name pk addrs)) a = Some pk) \<and>
      snd (AddPeer (fst (AddPeer pd name pk addrs)) name pk addrs) \<noteq> None"
      by blast
  qed
  have partial: "snd (AddPeer pd name pk addrs) = Some (errAddressInUse a) \<longrightarrow>
      (name \<noteq> [] \<longrightarrow> peerNames (fst (AddPeer pd name pk addrs)) name = Some pk) \<and>
      peerAddresses (fst (AddPeer pd name pk addrs)) pk = Some addrs \<and>
      (\<exists>pre post. addrs = pre @ a # post \<and> distinct pre \<and>
         (\<forall>b\<in>set pre. fromPeerAddress pd b = None \<and>
                       fromPeerAddress (fst (AddPeer pd name pk addrs)) b = Some pk) \<and>
         (fromPeerAddress pd a \<noteq> None \<or> a \<in> set pre))"
  proof
    assume "snd (AddPeer pd name pk addrs) = Some (errAddressInUse a)"
    then have err: "snd (AddPeer_loop pd2 pk addrs) = Some (errAddressInUse a)"
      using pd2 by simp
    have names: "name \<noteq> [] \<longrightarrow> peerNames (fst (AddPeer pd name pk addrs)) name = Some pk"
      using name2 pd2 by (simp add: AddPeer_loop_names)
    have lists: "peerAddresses (fst (AddPeer pd name pk addrs)) pk = Some addrs"
      using addrs2 pd2 by (simp add: AddPeer_loop_names)
    from AddPeer_loop_error [OF err] same pd2
    have "\<exists>pre post. addrs = pre @ a # post \<and> distinct pre \<and>
         (\<forall>b\<in>set pre. fromPeerAddress pd b = None \<and>
                       fromPeerAddress (fst (AddPeer pd name pk addrs)) b = Some pk) \<and>
         (fromPeerAddress pd a \<noteq> None \<or> a \<in> set pre)"
      by simp
    with names lists show "(name \<noteq> [] \<longrightarrow> peerNames (fst (AddPeer pd name pk addrs)) name = Some pk) \<and>
      peerAddresses (fst (AddPeer pd name pk addrs)) pk = Some addrs \<and>
      (\<exists>pre post. addrs = pre @ a # post \<and> distinct pre \<and>
         (\<forall>b\<in>set pre. fromPeerAddress pd b = None \<and>
                       fromPeerAddress (fst (AddPeer pd name pk addrs)) b = Some pk) \<and>
         (fromPeerAddress pd a \<noteq> None \<or> a \<in> set pre))"
      by blast
  qed
  from in_use again partial show ?thesis
    by blast
qed

theorem AddPeer_error_not_atomic_witness:
  "snd (AddPeer directory_alpha ''beta'' [2] [20, 11, 21]) = Some (errAddressInUse 11) \<and>
   peerNames (fst (AddPeer directory_alpha ''beta'' [2] [20, 11, 21])) ''beta'' = Some [2] \<and>
   peerAddresses (fst (AddPeer directory_alpha ''beta'' [2] [20, 11, 21])) [2] = Some [20, 11, 21] \<and>
   fromPeerAddress (fst (AddPeer directory_alpha ''beta'' [2] [20, 11, 21])) 20 = Some [2] \<and>
   fromPeerAddress (fst (AddPeer directory_alpha ''beta'' [2] [20, 11, 21])) 21 = None \<and>
   snd (AddPeer newPeerDirectory ''alpha'' [1] [10, 11 :: nat]) = None \<and>
   snd (AddPeer directory_alpha ''alpha'' [1] [10, 11]) \<noteq> None"
proof -
  have first: "[10, 11 :: nat] \<noteq> [] \<and> snd (AddPeer newPeerDirectory ''alpha'' [1] [10, 11 :: nat]) = None"
    by (simp add: AddPeer_def newPeerDirectory_def)
  have err: "snd (AddPeer directory_alpha ''beta'' [2] [20, 11, 21]) = Some (errAddressInUse 11)"
    by (simp add: directory_alpha_def AddPeer_def newPeerDirectory_def)
  have rest: "fromPeerAddress (fst (AddPeer directory_alpha ''beta'' [2] [20, 11, 21])) 20 = Some [2] \<and>
    fromPeerAddress (fst (AddPeer directory_alpha ''beta'' [2] [20, 11, 21])) 21 = None"
    by (simp add: directory_alpha_def AddPeer_def newPeerDirectory_def)
  from AddPeer_error_not_atomic [of "[10, 11 :: nat]" newPeerDirectory "''alpha''" "[1]"] first
  have again: "snd (AddPeer directory_alpha ''alpha'' [1] [10, 11]) \<noteq> None"
    unfolding directory_alpha_def by blast
  from AddPeer_error_not_atomic [of "[20, 11, 21]" directory_alpha "''beta''" "[2]" 11] err
  have "peerNames (fst (AddPeer directory_alpha ''beta'' [2] [20, 11, 21])) ''beta'' = Some [2] \<and>
    peerAddresses (fst (AddPeer directory_alpha ''beta'' [2] [20, 11, 21])) [2] = Some [20, 11, 21]"
    by simp
  with first err rest again show ?thesis
    by blast
qed

subsection \<open>Keypair rotation\<close>

lemma isZero_setZero: "isZero (setZero x)"
  by (simp add: isZero_def setZero_def list_all_iff)

lemma peer_keypairs_set_keypairs:
  "peer_keypairs (set_keypairs tr p ks) q = (if q = p then ks else peer_keypairs tr q)"
  by (simp add: peer_keypairs_def set_keypairs_def)

lemma peer_keypairs_DeleteKeypair:
  "peer_keypairs (DeleteKeypair tr k) p = peer_keypairs tr p"
  by (simp add: peer_keypairs_def DeleteKeypair_def Let_def split: option.split)

lemma peer_keypairs_set_handshake:
  "peer_keypairs (set_handshake tr p h) q = peer_keypairs tr q"
  by (simp add: peer_keypairs_def set_handshake_def)

lemma peer_handshake_set_handshake:
  "peer_handshake (set_handshake tr p h) q = (if q = p then h else peer_handshake tr q)"
  by (simp add: peer_handshake_def set_handshake_def)

lemma peer_handshake_set_keypairs:
  "peer_handshake (set_keypairs tr p ks) q = peer_handshake tr q"
  by (simp add: peer_handshake_def set_keypairs_def)

lemma peer_handshake_DeleteKeypair:
  "peer_handshake (DeleteKeypair tr k) p = peer_handshake tr p"
  by (simp add: peer_handshake_def DeleteKeypair_def Let_def split: option.split)

lemma keypair_deleted_set_keypairs:
  "keypair_deleted (set_keypairs tr p ks) k = keypair_deleted tr k"
  by (cases k) (simp_all add: keypair_deleted_def set_keypairs_def)

lemma keypair_deleted_DeleteKeypair: "keypair_deleted (DeleteKeypair tr k) k"
  by (simp add: keypair_deleted_def DeleteKeypair_def Let_def Delete_def isZero_setZero
      split: option.split)

lemma keypair_deleted_DeleteKeypair_other:
  "keypair_deleted tr k \<Longrightarrow> keypair_deleted (DeleteKeypair tr k') k"
  by (auto simp add: keypair_deleted_def DeleteKeypair_def Let_def Delete_def isZero_setZero
      split: option.splits)

lemmas keypairs_simps =
  set_current_def set_previous_def set_next_def
  peer_keypairs_set_keypairs peer_keypairs_DeleteKeypair peer_keypairs_set_handshake
  keypair_deleted_set_keypairs

lemma keypairStore_set_keypairs:
  "keypairStore (set_keypairs tr p ks) = keypairStore tr"
  by (simp add: set_keypairs_def)

lemma keypairStore_DeleteKeypair_other:
  "key \<noteq> Some k \<Longrightarrow> keypairStore (DeleteKeypair tr key) k = keypairStore tr k"
  by (cases key) (simp_all add: DeleteKeypair_def Let_def)

text \<open>The rotation block, slot by slot.\<close>

lemma rotate_initiator_slots:
  "current (peer_keypairs (BeginSymmetricSession_rotate tr p True k) p) = Some k \<and>
   previous (peer_keypairs (BeginSymmetricSession_rotate tr p True k) p) =
     (if next (peer_keypairs tr p) \<noteq> None then next (peer_keypairs tr p)
      else current (peer_keypairs tr p)) \<and>
   next (peer_keypairs (BeginSymmetricSession_rotate tr p True k) p) = None"
  by (simp add: BeginSymmetricSession_rotate_def Let_def keypairs_simps)

lemma rotate_initiator_deleted:
  "keypair_deleted (BeginSymmetricSession_rotate tr p True k) (previous (peer_keypairs tr p)) \<and>
   (next (peer_keypairs tr p) \<noteq> None \<longrightarrow>
      keypair_deleted (BeginSymmetricSession_rotate tr p True k) (current (peer_keypairs tr p)))"
  by (simp add: BeginSymmetricSession_rotate_def Let_def keypairs_simps
      keypair_deleted_DeleteKeypair keypair_deleted_DeleteKeypair_other)

lemma rotate_responder_slots:
  "current (peer_keypairs (BeginSymmetricSession_rotate tr p False k) p) =
     current (peer_keypairs tr p) \<and>
   previous (peer_keypairs (BeginSymmetricSession_rotate tr p False k) p) = None \<and>
   next (peer_keypairs (BeginSymmetricSession_rotate tr p False k) p) = Some k"
  by (simp add: BeginSymmetricSession_rotate_def Let_def keypairs_simps)

lemma rotate_responder_deleted:
  "keypair_deleted (BeginSymmetricSession_rotate tr p False k) (previous (peer_keypairs tr p)) \<and>
   keypair_deleted (BeginSymmetricSession_rotate tr p False k) (next (peer_keypairs tr p))"
  by (simp add: BeginSymmetricSession_rotate_def Let_def keypairs_simps
      keypair_deleted_DeleteKeypair keypair_deleted_DeleteKeypair_other)

lemma rotate_handshake:
  "peer_handshake (BeginSymmetricSession_rotate tr p i k) q = peer_handshake tr q"
  by (simp add: BeginSymmetricSession_rotate_def Let_def set_current_def set_previous_def
      set_next_def peer_handshake_set_keypairs peer_handshake_DeleteKeypair)

lemma rotate_keeps_new:
  "Some k \<noteq> current (peer_keypairs tr p) \<Longrightarrow> Some k \<noteq> previous (peer_keypairs tr p) \<Longrightarrow>
   Some k \<noteq> next (peer_keypairs tr p) \<Longrightarrow>
   keypairStore (BeginSymmetricSession_rotate tr p i k) k = keypairStore tr k"
  by (simp add: BeginSymmetricSession_rotate_def Let_def set_current_def set_previous_def
      set_next_def keypairStore_set_keypairs keypairStore_DeleteKeypair_other)

text \<open>The part of the routine before the rotation, as one step.\<close>

lemma BeginSymmetricSession_split:
  assumes "state (peer_handshake tr p) = handshakeResponseConsumed \<or>
           state (peer_handshake tr p) = handshakeResponseCreated"
  shows "\<exists>tr1. BeginSymmetricSession P tr p now =
            (None, BeginSymmetricSession_rotate tr1 p
                     (state (peer_handshake tr p) = handshakeResponseConsumed) (keypairAlloc tr)) \<and>
          peer_keypairs tr1 p = peer_keypairs tr p \<and>
          peer_handshake tr1 p =
            (peer_handshake tr p)
              \<lparr>chainKey := setZero (chainKey (peer_handshake tr p)),
               hash := setZero (hash (peer_handshake tr p)),
               localEphemeral := setZero (localEphemeral (peer_handshake tr p)),
               state := handshakeZeroed, localIndex := 0\<rparr> \<and>
          keypairStore tr1 (keypairAlloc tr) =
            (if state (peer_handshake tr p) = handshakeResponseConsumed
             then \<lparr>send = fst (KDF2 P (chainKey (peer_handshake tr p)) []),
                   receive = snd (KDF2 P (chainKey (peer_handshake tr p)) []),
                   created = now, isInitiator = True,
                   kp_localIndex = localIndex (peer_handshake tr p),
                   kp_remoteIndex = remoteIndex (peer_handshake tr p)\<rparr>
             else \<lparr>send = snd (KDF2 P (chainKey (peer_handshake tr p)) []),
                   receive = fst (KDF2 P (chainKey (peer_handshake tr p)) []),
                   created = now, isInitiator = False,
                   kp_localIndex = localIndex (peer_handshake tr p),
                   kp_remoteIndex = remoteIndex (peer_handshake tr p)\<rparr>)"
  using assms
  by (auto simp add: BeginSymmetricSession_def Let_def split_beta peer_keypairs_set_handshake
      peer_handshake_set_handshake set_handshake_def peer_keypairs_def peer_handshake_def)


text \<open>
  Claim C5. \<open>ReceivedWithKeypair\<close> returns false and changes nothing when the next slot
  does not hold the keypair received with (both tests read the same slot). When it does,
  previous becomes the old current, current becomes the keypair, next becomes empty, the
  old previous keypair is deleted, and the result is true.
\<close>

theorem ReceivedWithKeypair_promotes_next:
  "(next (peer_keypairs tr p) \<noteq> rk \<longrightarrow> ReceivedWithKeypair tr p rk = (False, tr)) \<and>
   (next (peer_keypairs tr p) = rk \<longrightarrow>
      fst (ReceivedWithKeypair tr p rk) = True \<and>
      previous (peer_keypairs (snd (ReceivedWithKeypair tr p rk)) p) = current (peer_keypairs tr p) \<and>
      current (peer_keypairs (snd (ReceivedWithKeypair tr p rk)) p) = rk \<and>
      next (peer_keypairs (snd (ReceivedWithKeypair tr p rk)) p) = None \<and>
      keypair_deleted (snd (ReceivedWithKeypair tr p rk)) (previous (peer_keypairs tr p)))"
  by (simp add: ReceivedWithKeypair_def Let_def keypairs_simps keypair_deleted_DeleteKeypair)

lemma example_slots:
  "peer_keypairs example_transport 0 = \<lparr>current = Some 0, previous = Some 1, next = Some 2\<rparr>"
  "peer_keypairs (example_in_state s) 0 = \<lparr>current = Some 0, previous = Some 1, next = Some 2\<rparr>"
  "keypairAlloc (example_in_state s) = 3"
  "state (peer_handshake (example_in_state s) 0) = s"
  by (simp_all add: example_in_state_def example_transport_def example_peer_def
      peer_keypairs_def peer_handshake_def set_handshake_def)

theorem ReceivedWithKeypair_promotes_next_witness:
  "ReceivedWithKeypair example_transport 0 (Some 1) = (False, example_transport) \<and>
   fst (ReceivedWithKeypair example_transport 0 (Some 2)) = True \<and>
   peer_keypairs (snd (ReceivedWithKeypair example_transport 0 (Some 2))) 0 =
     \<lparr>current = Some 2, previous = Some 0, next = None\<rparr> \<and>
   keypair_deleted (snd (ReceivedWithKeypair example_transport 0 (Some 2))) (Some 1)"
  using ReceivedWithKeypair_promotes_next [of example_transport 0 "Some 1"]
        ReceivedWithKeypair_promotes_next [of example_transport 0 "Some 2"]
  by (simp add: example_slots)

text \<open>
  Claim C2. Started in state ResponseConsumed (initiator), \<open>BeginSymmetricSession\<close>
  succeeds and makes the new keypair, the one at the reference \<open>keypairAlloc\<close>, current;
  when next held a keypair, previous becomes that keypair, next becomes empty and the old
  current is deleted; when next was empty, previous becomes the old current; the old
  previous is deleted in both cases. Started in state ResponseCreated (responder), next
  becomes the new keypair, the prior next is deleted, previous becomes empty, the prior
  previous is deleted, and current stays as it was.
\<close>

theorem BeginSymmetricSession_rotation:
  "(state (peer_handshake tr p) = handshakeResponseConsumed \<longrightarrow>
      fst (BeginSymmetricSession P tr p now) = None \<and>
      current (peer_keypairs (snd (BeginSymmetricSession P tr p now)) p) = Some (keypairAlloc tr) \<and>
      next (peer_keypairs (snd (BeginSymmetricSession P tr p now)) p) = None \<and>
      keypair_deleted (snd (BeginSymmetricSession P tr p now)) (previous (peer_keypairs tr p)) \<and>
      (next (peer_keypairs tr p) \<noteq> None \<longrightarrow>
         previous (peer_keypairs (snd (BeginSymmetricSession P tr p now)) p) =
           next (peer_keypairs tr p) \<and>
         keypair_deleted (snd (BeginSymmetricSession P tr p now)) (current (peer_keypairs tr p))) \<and>
      (next (peer_keypairs tr p) = None \<longrightarrow>
         previous (peer_keypairs (snd (BeginSymmetricSession P tr p now)) p) =
           current (peer_keypairs tr p))) \<and>
   (state (peer_handshake tr p) = handshakeResponseCreated \<longrightarrow>
      fst (BeginSymmetricSession P tr p now) = None \<and>
      next (peer_keypairs (snd (BeginSymmetricSession P tr p now)) p) = Some (keypairAlloc tr) \<and>
      keypair_deleted (snd (BeginSymmetricSession P tr p now)) (next (peer_keypairs tr p)) \<and>
      previous (peer_keypairs (snd (BeginSymmetricSession P tr p now)) p) = None \<and>
      keypair_deleted (snd (BeginSymmetricSession P tr p now)) (previous (peer_keypairs tr p)) \<and>
      current (peer_keypairs (snd (BeginSymmetricSession P tr p now)) p) =
        current (peer_keypairs tr p))"
proof (intro conjI impI)
  assume st: "state (peer_handshake tr p) = handshakeResponseConsumed"
  from BeginSymmetricSession_split [of tr p P now] st obtain tr1 where
    run: "BeginSymmetricSession P tr p now =
            (None, BeginSymmetricSession_rotate tr1 p True (keypairAlloc tr))" and
    slots: "peer_keypairs tr1 p = peer_keypairs tr p"
    by auto
  from run show "fst (BeginSymmetricSession P tr p now) = None"
    by simp
  from run slots rotate_initiator_slots [of tr1 p "keypairAlloc tr"]
  show "current (peer_keypairs (snd (BeginSymmetricSession P tr p now)) p) = Some (keypairAlloc tr)"
    and "next (peer_keypairs (snd (BeginSymmetricSession P tr p now)) p) = None"
    by simp_all
  from run slots rotate_initiator_deleted [of tr1 p "keypairAlloc tr"]
  show "keypair_deleted (snd (BeginSymmetricSession P tr p now)) (previous (peer_keypairs tr p))"
    by simp
  {
    assume nx: "next (peer_keypairs tr p) \<noteq> None"
    from nx run slots rotate_initiator_slots [of tr1 p "keypairAlloc tr"]
    show "previous (peer_keypairs (snd (BeginSymmetricSession P tr p now)) p) =
            next (peer_keypairs tr p)"
      by simp
    from nx run slots rotate_initiator_deleted [of tr1 p "keypairAlloc tr"]
    show "keypair_deleted (snd (BeginSymmetricSession P tr p now)) (current (peer_keypairs tr p))"
      by simp
  }
  {
    assume nx: "next (peer_keypairs tr p) = None"
    from nx run slots rotate_initiator_slots [of tr1 p "keypairAlloc tr"]
    show "previous (peer_keypairs (snd (BeginSymmetricSession P tr p now)) p) =
            current (peer_keypairs tr p)"
      by simp
  }
next
  assume st: "state (peer_handshake tr p) = handshakeResponseCreated"
  from BeginSymmetricSession_split [of tr p P now] st obtain tr1 where
    run: "BeginSymmetricSession P tr p now =
            (None, BeginSymmetricSession_rotate tr1 p False (keypairAlloc tr))" and
    slots: "peer_keypairs tr1 p = peer_keypairs tr p"
    by auto
  from run show "fst (BeginSymmetricSession P tr p now) = None"
    by simp
  from run slots rotate_responder_slots [of tr1 p "keypairAlloc tr"]
  show "next (peer_keypairs (snd (BeginSymmetricSession P tr p now)) p) = Some (keypairAlloc tr)"
    and "previous (peer_keypairs (snd (BeginSymmetricSession P tr p now)) p) = None"
    and "current (peer_keypairs (snd (BeginSymmetricSession P tr p now)) p) =
           current (peer_keypairs tr p)"
    by simp_all
  from run slots rotate_responder_deleted [of tr1 p "keypairAlloc tr"]
  show "keypair_deleted (snd (BeginSymmetricSession P tr p now)) (next (peer_keypairs tr p))"
    and "keypair_deleted (snd (BeginSymmetricSession P tr p now)) (previous (peer_keypairs tr p))"
    by simp_all
qed


lemma example_no_next_slots:
  "peer_keypairs (example_no_next s) 0 = \<lparr>current = Some 0, previous = Some 1, next = None\<rparr>"
  "keypairAlloc (example_no_next s) = 3"
  "state (peer_handshake (example_no_next s) 0) = s"
  by (simp_all add: example_no_next_def set_next_def example_in_state_def example_transport_def
      example_peer_def peer_keypairs_def peer_handshake_def set_handshake_def set_keypairs_def)

theorem BeginSymmetricSession_rotation_witness:
  "fst (BeginSymmetricSession toy_primitives (example_in_state handshakeResponseConsumed) 0 55) = None \<and>
   current (peer_keypairs (snd (BeginSymmetricSession toy_primitives
      (example_in_state handshakeResponseConsumed) 0 55)) 0) = Some 3 \<and>
   previous (peer_keypairs (snd (BeginSymmetricSession toy_primitives
      (example_in_state handshakeResponseConsumed) 0 55)) 0) = Some 2 \<and>
   next (peer_keypairs (snd (BeginSymmetricSession toy_primitives
      (example_in_state handshakeResponseConsumed) 0 55)) 0) = None \<and>
   keypair_deleted (snd (BeginSymmetricSession toy_primitives
      (example_in_state handshakeResponseConsumed) 0 55)) (Some 0) \<and>
   keypair_deleted (snd (BeginSymmetricSession toy_primitives
      (example_in_state handshakeResponseConsumed) 0 55)) (Some 1) \<and>
   current (peer_keypairs (snd (BeginSymmetricSession toy_primitives
      (example_no_next handshakeResponseConsumed) 0 55)) 0) = Some 3 \<and>
   previous (peer_keypairs (snd (BeginSymmetricSession toy_primitives
      (example_no_next handshakeResponseConsumed) 0 55)) 0) = Some 0 \<and>
   keypair_deleted (snd (BeginSymmetricSession toy_primitives
      (example_no_next handshakeResponseConsumed) 0 55)) (Some 1) \<and>
   current (peer_keypairs (snd (BeginSymmetricSession toy_primitives
      (example_in_state handshakeResponseCreated) 0 55)) 0) = Some 0 \<and>
   previous (peer_keypairs (snd (BeginSymmetricSession toy_primitives
      (example_in_state handshakeResponseCreated) 0 55)) 0) = None \<and>
   next (peer_keypairs (snd (BeginSymmetricSession toy_primitives
      (example_in_state handshakeResponseCreated) 0 55)) 0) = Some 3 \<and>
   keypair_deleted (snd (BeginSymmetricSession toy_primitives
      (example_in_state handshakeResponseCreated) 0 55)) (Some 2) \<and>
   keypair_deleted (snd (BeginSymmetricSession toy_primitives
      (example_in_state handshakeResponseCreated) 0 55)) (Some 1)"
  using BeginSymmetricSession_rotation
          [of "example_in_state handshakeResponseConsumed" 0 toy_primitives 55]
        BeginSymmetricSession_rotation
          [of "example_no_next handshakeResponseConsumed" 0 toy_primitives 55]
        BeginSymmetricSession_rotation
          [of "example_in_state handshakeResponseCreated" 0 toy_primitives 55]
  by (simp add: example_slots example_no_next_slots)

lemma ref_allocated_neq:
  "ref_allocated tr key \<Longrightarrow> Some (keypairAlloc tr) \<noteq> key"
  by (cases key) (auto simp add: ref_allocated_def)

lemma BeginSymmetricSession_effect:
  assumes alloc: "keypairs_allocated tr p"
    and st: "state (peer_handshake tr p) = handshakeResponseConsumed \<or>
             state (peer_handshake tr p) = handshakeResponseCreated"
  shows "fst (BeginSymmetricSession P tr p now) = None \<and>
    keypairStore (snd (BeginSymmetricSession P tr p now)) (keypairAlloc tr) =
      (if state (peer_handshake tr p) = handshakeResponseConsumed
       then \<lparr>send = fst (KDF2 P (chainKey (peer_handshake tr p)) []),
             receive = snd (KDF2 P (chainKey (peer_handshake tr p)) []),
             created = now, isInitiator = True,
             kp_localIndex = localIndex (peer_handshake tr p),
             kp_remoteIndex = remoteIndex (peer_handshake tr p)\<rparr>
       else \<lparr>send = snd (KDF2 P (chainKey (peer_handshake tr p)) []),
             receive = fst (KDF2 P (chainKey (peer_handshake tr p)) []),
             created = now, isInitiator = False,
             kp_localIndex = localIndex (peer_handshake tr p),
             kp_remoteIndex = remoteIndex (peer_handshake tr p)\<rparr>) \<and>
    peer_handshake (snd (BeginSymmetricSession P tr p now)) p =
      (peer_handshake tr p)
        \<lparr>chainKey := setZero (chainKey (peer_handshake tr p)),
         hash := setZero (hash (peer_handshake tr p)),
         localEphemeral := setZero (localEphemeral (peer_handshake tr p)),
         state := handshakeZeroed, localIndex := 0\<rparr>"
proof -
  let ?k = "keypairAlloc tr"
  let ?i = "state (peer_handshake tr p) = handshakeResponseConsumed"
  from BeginSymmetricSession_split [OF st, of P now] obtain tr1 where
    run: "BeginSymmetricSession P tr p now = (None, BeginSymmetricSession_rotate tr1 p ?i ?k)" and
    slots: "peer_keypairs tr1 p = peer_keypairs tr p" and
    hs: "peer_handshake tr1 p =
      (peer_handshake tr p)
        \<lparr>chainKey := setZero (chainKey (peer_handshake tr p)),
         hash := setZero (hash (peer_handshake tr p)),
         localEphemeral := setZero (localEphemeral (peer_handshake tr p)),
         state := handshakeZeroed, localIndex := 0\<rparr>" and
    kp: "keypairStore tr1 ?k =
      (if ?i
       then \<lparr>send = fst (KDF2 P (chainKey (peer_handshake tr p)) []),
             receive = snd (KDF2 P (chainKey (peer_handshake tr p)) []),
             created = now, isInitiator = True,
             kp_localIndex = localIndex (peer_handshake tr p),
             kp_remoteIndex = remoteIndex (peer_handshake tr p)\<rparr>
       else \<lparr>send = snd (KDF2 P (chainKey (peer_handshake tr p)) []),
             receive = fst (KDF2 P (chainKey (peer_handshake tr p)) []),
             created = now, isInitiator = False,
             kp_localIndex = localIndex (peer_handshake tr p),
             kp_remoteIndex = remoteIndex (peer_handshake tr p)\<rparr>)"
    by blast
  from alloc have fresh:
    "Some ?k \<noteq> current (peer_keypairs tr1 p)"
    "Some ?k \<noteq> previous (peer_keypairs tr1 p)"
    "Some ?k \<noteq> next (peer_keypairs tr1 p)"
    unfolding slots keypairs_allocated_def by (simp_all add: ref_allocated_neq)
  have "keypairStore (BeginSymmetricSession_rotate tr1 p ?i ?k) ?k = keypairStore tr1 ?k"
    using fresh by (rule rotate_keeps_new)
  moreover have "peer_handshake (BeginSymmetricSession_rotate tr1 p ?i ?k) p = peer_handshake tr1 p"
    by (rule rotate_handshake)
  ultimately show ?thesis
    unfolding run using kp hs by simp
qed

text \<open>
  Claim C3. In state ResponseConsumed the new keypair gets the first output of
  \<open>KDF2 chainKey []\<close> as send key and the second as receive key and is marked initiator;
  in state ResponseCreated the first output is the receive key and the second the send
  key, and the keypair is marked responder. In both cases the call succeeds and leaves
  the chain key, the hash and the local ephemeral key of the handshake zero. The slots of
  the peer are assumed to hold references allocated before the call.
\<close>

theorem BeginSymmetricSession_keys:
  assumes alloc: "keypairs_allocated tr p"
  shows
  "(state (peer_handshake tr p) = handshakeResponseConsumed \<longrightarrow>
      fst (BeginSymmetricSession P tr p now) = None \<and>
      send (keypairStore (snd (BeginSymmetricSession P tr p now)) (keypairAlloc tr)) =
        fst (KDF2 P (chainKey (peer_handshake tr p)) []) \<and>
      receive (keypairStore (snd (BeginSymmetricSession P tr p now)) (keypairAlloc tr)) =
        snd (KDF2 P (chainKey (peer_handshake tr p)) []) \<and>
      isInitiator (keypairStore (snd (BeginSymmetricSession P tr p now)) (keypairAlloc tr))) \<and>
   (state (peer_handshake tr p) = handshakeResponseCreated \<longrightarrow>
      fst (BeginSymmetricSession P tr p now) = None \<and>
      receive (keypairStore (snd (BeginSymmetricSession P tr p now)) (keypairAlloc tr)) =
        fst (KDF2 P (chainKey (peer_handshake tr p)) []) \<and>
      send (keypairStore (snd (BeginSymmetricSession P tr p now)) (keypairAlloc tr)) =
        snd (KDF2 P (chainKey (peer_handshake tr p)) []) \<and>
      \<not> isInitiator (keypairStore (snd (BeginSymmetricSession P tr p now)) (keypairAlloc tr))) \<and>
   (state (peer_handshake tr p) = handshakeResponseConsumed \<or>
    state (peer_handshake tr p) = handshakeResponseCreated \<longrightarrow>
      chainKey (peer_handshake (snd (BeginSymmetricSession P tr p now)) p) =
        setZero (chainKey (peer_handshake tr p)) \<and>
      isZero (chainKey (peer_handshake (snd (BeginSymmetricSession P tr p now)) p)) \<and>
      hash (peer_handshake (snd (BeginSymmetricSession P tr p now)) p) =
        setZero (hash (peer_handshake tr p)) \<and>
      isZero (hash (peer_handshake (snd (BeginSymmetricSession P tr p now)) p)) \<and>
      localEphemeral (peer_handshake (snd (BeginSymmetricSession P tr p now)) p) =
        setZero (localEphemeral (peer_handshake tr p)) \<and>
      isZero (localEphemeral (peer_handshake (snd (BeginSymmetricSession P tr p now)) p)))"
proof (intro conjI impI)
  assume st: "state (peer_handshake tr p) = handshakeResponseConsumed"
  from BeginSymmetricSession_effect [OF alloc, of P now] st
  show "fst (BeginSymmetricSession P tr p now) = None"
    and "send (keypairStore (snd (BeginSymmetricSession P tr p now)) (keypairAlloc tr)) =
        fst (KDF2 P (chainKey (peer_handshake tr p)) [])"
    and "receive (keypairStore (snd (BeginSymmetricSession P tr p now)) (keypairAlloc tr)) =
        snd (KDF2 P (chainKey (peer_handshake tr p)) [])"
    and "isInitiator (keypairStore (snd (BeginSymmetricSession P tr p now)) (keypairAlloc tr))"
    by simp_all
next
  assume st: "state (peer_handshake tr p) = handshakeResponseCreated"
  from BeginSymmetricSession_effect [OF alloc, of P now] st
  show "fst (BeginSymmetricSession P tr p now) = None"
    and "receive (keypairStore (snd (BeginSymmetricSession P tr p now)) (keypairAlloc tr)) =
        fst (KDF2 P (chainKey (peer_handshake tr p)) [])"
    and "send (keypairStore (snd (BeginSymmetricSession P tr p now)) (keypairAlloc tr)) =
        snd (KDF2 P (chainKey (peer_handshake tr p)) [])"
    and "\<not> isInitiator (keypairStore (snd (BeginSymmetricSession P tr p now)) (keypairAlloc tr))"
    by simp_all
next
  assume st: "state (peer_handshake tr p) = handshakeResponseConsumed \<or>
    state (peer_handshake tr p) = handshakeResponseCreated"
  from BeginSymmetricSession_effect [OF alloc st, of P now]
  show "chainKey (peer_handshake (snd (BeginSymmetricSession P tr p now)) p) =
        setZero (chainKey (peer_handshake tr p))"
    and "isZero (chainKey (peer_handshake (snd (BeginSymmetricSession P tr p now)) p))"
    and "hash (peer_handshake (snd (BeginSymmetricSession P tr p now)) p) =
        setZero (hash (peer_handshake tr p))"
    and "isZero (hash (peer_handshake (snd (BeginSymmetricSession P tr p now)) p))"
    and "localEphemeral (peer_handshake (snd (BeginSymmetricSession P tr p now)) p) =
        setZero (localEphemeral (peer_handshake tr p))"
    and "isZero (localEphemeral (peer_handshake (snd (BeginSymmetricSession P tr p now)) p))"
    by (simp_all add: isZero_setZero)
qed

lemma example_allocated: "keypairs_allocated (example_in_state s) 0"
  by (simp add: keypairs_allocated_def ref_allocated_def example_slots)

lemma example_chainKey:
  "chainKey (peer_handshake (example_in_state s) 0) = [0]"
  "hash (peer_handshake (example_in_state s) 0) = [0]"
  "localEphemeral (peer_handshake (example_in_state s) 0) = [0]"
  by (simp_all add: example_in_state_def example_handshake_def peer_handshake_def
      set_handshake_def)

theorem BeginSymmetricSession_keys_witness:
  "keypairs_allocated (example_in_state handshakeResponseConsumed) 0 \<and>
   send (keypairStore (snd (BeginSymmetricSession toy_primitives
      (example_in_state handshakeResponseConsumed) 0 55)) 3) = [1] \<and>
   receive (keypairStore (snd (BeginSymmetricSession toy_primitives
      (example_in_state handshakeResponseConsumed) 0 55)) 3) = [2] \<and>
   isInitiator (keypairStore (snd (BeginSymmetricSession toy_primitives
      (example_in_state handshakeResponseConsumed) 0 55)) 3) \<and>
   chainKey (peer_handshake (snd (BeginSymmetricSession toy_primitives
      (example_in_state handshakeResponseConsumed) 0 55)) 0) = [0] \<and>
   keypairs_allocated (example_in_state handshakeResponseCreated) 0 \<and>
   send (keypairStore (snd (BeginSymmetricSession toy_primitives
      (example_in_state handshakeResponseCreated) 0 55)) 3) = [2] \<and>
   receive (keypairStore (snd (BeginSymmetricSession toy_primitives
      (example_in_state handshakeResponseCreated) 0 55)) 3) = [1] \<and>
   \<not> isInitiator (keypairStore (snd (BeginSymmetricSession toy_primitives
      (example_in_state handshakeResponseCreated) 0 55)) 3)"
  using BeginSymmetricSession_keys [OF example_allocated [of handshakeResponseConsumed],
          of toy_primitives 55]
        BeginSymmetricSession_keys [OF example_allocated [of handshakeResponseCreated],
          of toy_primitives 55]
  by (simp add: example_slots example_chainKey example_allocated toy_primitives_def setZero_def)

subsection \<open>Consuming the response\<close>

lemma ConsumeMessageResponse_ok_Some:
  assumes "state hs = handshakeInitiationCreated"
    and "sharedSecret P (localEphemeral hs) (r_Ephemeral msg) = Inr ss1"
    and "sharedSecret P (staticIdentity_privateKey tr) (r_Ephemeral msg) = Inr ss2"
    and "aead_Open P (response_key P hs msg ss1 ss2) ZeroNonce (r_Empty msg)
           (response_auth_hash P hs msg ss1 ss2) = Some pt"
  shows "ConsumeMessageResponse_ok P tr hs msg =
           Some (response_hash P hs msg ss1 ss2, response_chainKey P hs msg ss1 ss2)"
  using assms
  by (simp add: ConsumeMessageResponse_ok_def Let_def split_beta response_hash_def
      response_auth_hash_def response_tau_def response_key_def response_chainKey_def
      response_KDF3_def)

lemma ConsumeMessageResponse_ok_None:
  "state hs \<noteq> handshakeInitiationCreated \<Longrightarrow> ConsumeMessageResponse_ok P tr hs msg = None"
  "sharedSecret P (localEphemeral hs) (r_Ephemeral msg) = Inl e \<Longrightarrow>
     ConsumeMessageResponse_ok P tr hs msg = None"
  "sharedSecret P (staticIdentity_privateKey tr) (r_Ephemeral msg) = Inl e \<Longrightarrow>
     ConsumeMessageResponse_ok P tr hs msg = None"
  "sharedSecret P (localEphemeral hs) (r_Ephemeral msg) = Inr ss1 \<Longrightarrow>
   sharedSecret P (staticIdentity_privateKey tr) (r_Ephemeral msg) = Inr ss2 \<Longrightarrow>
   aead_Open P (response_key P hs msg ss1 ss2) ZeroNonce (r_Empty msg)
           (response_auth_hash P hs msg ss1 ss2) = None \<Longrightarrow>
     ConsumeMessageResponse_ok P tr hs msg = None"
  by (simp_all add: ConsumeMessageResponse_ok_def Let_def split_beta
      response_auth_hash_def response_tau_def response_key_def
      response_KDF3_def split: sum.split)

lemma ConsumeMessageResponse_ok_cases:
  "ConsumeMessageResponse_ok P tr hs msg = None \<or>
   (\<exists>ss1 ss2 pt. state hs = handshakeInitiationCreated \<and>
      sharedSecret P (localEphemeral hs) (r_Ephemeral msg) = Inr ss1 \<and>
      sharedSecret P (staticIdentity_privateKey tr) (r_Ephemeral msg) = Inr ss2 \<and>
      aead_Open P (response_key P hs msg ss1 ss2) ZeroNonce (r_Empty msg)
           (response_auth_hash P hs msg ss1 ss2) = Some pt)"
  by (auto simp add: ConsumeMessageResponse_ok_def Let_def split_beta
      response_auth_hash_def response_tau_def response_key_def
      response_KDF3_def split: sum.split option.split)

lemma Lookup_unbound:
  "indexTable tr i = None \<Longrightarrow> entry_handshake (Lookup (indexTable tr) i) = None"
  by (simp add: Lookup_def)

text \<open>
  Claim C4. \<open>ConsumeMessageResponse\<close> looks the handshake up by the receiver index of
  the message. It returns \<open>None\<close> and leaves the transport, so every field of the
  handshake, as it was when the type is wrong, the index is bound to no handshake, the
  state is not InitiationCreated, one of the two shared secrets fails, or the empty
  payload does not open under the derived key with the derived hash as additional data.
  When all of these pass it returns the peer of the entry and writes the new hash, the
  new chain key, the sender index of the message as remote index, and the state
  ResponseConsumed; the other fields stay. Every call is one of these cases.
\<close>

theorem ConsumeMessageResponse_commits_on_success_only:
  "(r_Type msg \<noteq> MessageResponseType \<longrightarrow> ConsumeMessageResponse P tr msg = (None, tr)) \<and>
   (indexTable tr (r_Receiver msg) = None \<longrightarrow> ConsumeMessageResponse P tr msg = (None, tr)) \<and>
   (entry_handshake (Lookup (indexTable tr) (r_Receiver msg)) = None \<longrightarrow>
      ConsumeMessageResponse P tr msg = (None, tr)) \<and>
   (entry_handshake (Lookup (indexTable tr) (r_Receiver msg)) = Some h \<and>
    state (peer_handshake tr h) \<noteq> handshakeInitiationCreated \<longrightarrow>
      ConsumeMessageResponse P tr msg = (None, tr)) \<and>
   (entry_handshake (Lookup (indexTable tr) (r_Receiver msg)) = Some h \<and>
    sharedSecret P (localEphemeral (peer_handshake tr h)) (r_Ephemeral msg) = Inl e \<longrightarrow>
      ConsumeMessageResponse P tr msg = (None, tr)) \<and>
   (entry_handshake (Lookup (indexTable tr) (r_Receiver msg)) = Some h \<and>
    sharedSecret P (staticIdentity_privateKey tr) (r_Ephemeral msg) = Inl e \<longrightarrow>
      ConsumeMessageResponse P tr msg = (None, tr)) \<and>
   (entry_handshake (Lookup (indexTable tr) (r_Receiver msg)) = Some h \<and>
    sharedSecret P (localEphemeral (peer_handshake tr h)) (r_Ephemeral msg) = Inr ss1 \<and>
    sharedSecret P (staticIdentity_privateKey tr) (r_Ephemeral msg) = Inr ss2 \<and>
    aead_Open P (response_key P (peer_handshake tr h) msg ss1 ss2) ZeroNonce (r_Empty msg)
      (response_auth_hash P (peer_handshake tr h) msg ss1 ss2) = None \<longrightarrow>
      ConsumeMessageResponse P tr msg = (None, tr)) \<and>
   (r_Type msg = MessageResponseType \<and>
    entry_handshake (Lookup (indexTable tr) (r_Receiver msg)) = Some h \<and>
    state (peer_handshake tr h) = handshakeInitiationCreated \<and>
    sharedSecret P (localEphemeral (peer_handshake tr h)) (r_Ephemeral msg) = Inr ss1 \<and>
    sharedSecret P (staticIdentity_privateKey tr) (r_Ephemeral msg) = Inr ss2 \<and>
    aead_Open P (response_key P (peer_handshake tr h) msg ss1 ss2) ZeroNonce (r_Empty msg)
      (response_auth_hash P (peer_handshake tr h) msg ss1 ss2) = Some pt \<longrightarrow>
      ConsumeMessageResponse P tr msg =
        (entry_peer (Lookup (indexTable tr) (r_Receiver msg)),
         set_handshake tr h
           ((peer_handshake tr h)
              \<lparr>hash := response_hash P (peer_handshake tr h) msg ss1 ss2,
               chainKey := response_chainKey P (peer_handshake tr h) msg ss1 ss2,
               remoteIndex := r_Sender msg,
               state := handshakeResponseConsumed\<rparr>))) \<and>
   (ConsumeMessageResponse P tr msg = (None, tr) \<or>
    (\<exists>h ss1 ss2 pt.
       r_Type msg = MessageResponseType \<and>
       entry_handshake (Lookup (indexTable tr) (r_Receiver msg)) = Some h \<and>
       state (peer_handshake tr h) = handshakeInitiationCreated \<and>
       sharedSecret P (localEphemeral (peer_handshake tr h)) (r_Ephemeral msg) = Inr ss1 \<and>
       sharedSecret P (staticIdentity_privateKey tr) (r_Ephemeral msg) = Inr ss2 \<and>
       aead_Open P (response_key P (peer_handshake tr h) msg ss1 ss2) ZeroNonce (r_Empty msg)
         (response_auth_hash P (peer_handshake tr h) msg ss1 ss2) = Some pt))"
proof -
  let ?R = "ConsumeMessageResponse P tr msg"
  let ?l = "Lookup (indexTable tr) (r_Receiver msg)"
  have wrong_type: "r_Type msg \<noteq> MessageResponseType \<longrightarrow> ?R = (None, tr)"
    by (simp add: ConsumeMessageResponse_def)
  have no_entry: "entry_handshake ?l = None \<longrightarrow> ?R = (None, tr)"
    by (simp add: ConsumeMessageResponse_def Let_def)
  have unbound: "indexTable tr (r_Receiver msg) = None \<longrightarrow> ?R = (None, tr)"
    by (simp add: ConsumeMessageResponse_def Let_def Lookup_def)
  have not_ok: "entry_handshake ?l = Some h \<and>
      ConsumeMessageResponse_ok P tr (peer_handshake tr h) msg = None \<longrightarrow> ?R = (None, tr)"
    by (simp add: ConsumeMessageResponse_def Let_def)
  have ok: "r_Type msg = MessageResponseType \<and> entry_handshake ?l = Some h \<and>
      ConsumeMessageResponse_ok P tr (peer_handshake tr h) msg = Some (hv, cv) \<longrightarrow>
      ?R = (entry_peer ?l,
            set_handshake tr h ((peer_handshake tr h)
              \<lparr>hash := hv, chainKey := cv, remoteIndex := r_Sender msg,
               state := handshakeResponseConsumed\<rparr>))" for hv cv
    by (simp add: ConsumeMessageResponse_def Let_def)
  have total: "?R = (None, tr) \<or>
    (\<exists>h ss1 ss2 pt.
       r_Type msg = MessageResponseType \<and>
       entry_handshake ?l = Some h \<and>
       state (peer_handshake tr h) = handshakeInitiationCreated \<and>
       sharedSecret P (localEphemeral (peer_handshake tr h)) (r_Ephemeral msg) = Inr ss1 \<and>
       sharedSecret P (staticIdentity_privateKey tr) (r_Ephemeral msg) = Inr ss2 \<and>
       aead_Open P (response_key P (peer_handshake tr h) msg ss1 ss2) ZeroNonce (r_Empty msg)
         (response_auth_hash P (peer_handshake tr h) msg ss1 ss2) = Some pt)"
  proof (cases "r_Type msg = MessageResponseType")
    case False
    with wrong_type show ?thesis by blast
  next
    case type: True
    show ?thesis
    proof (cases "entry_handshake ?l")
      case None
      with no_entry show ?thesis by blast
    next
      case (Some h')
      from ConsumeMessageResponse_ok_cases [of P tr "peer_handshake tr h'" msg]
      show ?thesis
      proof
        assume "ConsumeMessageResponse_ok P tr (peer_handshake tr h') msg = None"
        with Some have "?R = (None, tr)"
          by (simp add: ConsumeMessageResponse_def Let_def)
        then show ?thesis by blast
      next
        assume "\<exists>ss1 ss2 pt. state (peer_handshake tr h') = handshakeInitiationCreated \<and>
          sharedSecret P (localEphemeral (peer_handshake tr h')) (r_Ephemeral msg) = Inr ss1 \<and>
          sharedSecret P (staticIdentity_privateKey tr) (r_Ephemeral msg) = Inr ss2 \<and>
          aead_Open P (response_key P (peer_handshake tr h') msg ss1 ss2) ZeroNonce (r_Empty msg)
            (response_auth_hash P (peer_handshake tr h') msg ss1 ss2) = Some pt"
        with type Some show ?thesis by blast
      qed
    qed
  qed
  from wrong_type unbound no_entry not_ok ok total
    ConsumeMessageResponse_ok_None [where hs = "peer_handshake tr h" and P = P and tr = tr
      and msg = msg]
    ConsumeMessageResponse_ok_Some [where hs = "peer_handshake tr h" and P = P and tr = tr
      and msg = msg and ?ss1.0 = ss1 and ?ss2.0 = ss2 and pt = pt]
  show ?thesis
    by blast
qed


lemmas example_defs =
  example_initiator_def example_response_def example_transport_def example_table_def
  example_peer_def example_handshake_def toy_primitives_def
  set_handshake_def peer_handshake_def Lookup_def ZeroNonce_def
  chacha20poly1305_NonceSize_def MessageResponseType_def MessageInitiationType_def
  mixHash_def mixKey_def sum_list_replicate

lemmas response_defs =
  response_hash_def response_auth_hash_def response_tau_def response_key_def
  response_chainKey_def response_KDF3_def

theorem ConsumeMessageResponse_commits_on_success_only_witness:
  "ConsumeMessageResponse toy_primitives example_initiator example_response =
     (Some 0,
      set_handshake example_initiator 0
        ((peer_handshake example_initiator 0)
           \<lparr>hash := [152], chainKey := [6], remoteIndex := 40,
            state := handshakeResponseConsumed\<rparr>)) \<and>
   ConsumeMessageResponse toy_primitives example_initiator (example_response\<lparr>r_Type := 1\<rparr>) =
     (None, example_initiator) \<and>
   ConsumeMessageResponse toy_primitives example_initiator (example_response\<lparr>r_Receiver := 8\<rparr>) =
     (None, example_initiator) \<and>
   ConsumeMessageResponse toy_primitives example_transport example_response =
     (None, example_transport) \<and>
   ConsumeMessageResponse toy_primitives example_initiator (example_response\<lparr>r_Empty := [81]\<rparr>) =
     (None, example_initiator)"
proof -
  have ok_hyps:
    "r_Type example_response = MessageResponseType \<and>
     entry_handshake (Lookup (indexTable example_initiator) (r_Receiver example_response)) = Some 0 \<and>
     state (peer_handshake example_initiator 0) = handshakeInitiationCreated \<and>
     sharedSecret toy_primitives (localEphemeral (peer_handshake example_initiator 0))
       (r_Ephemeral example_response) = Inr [60] \<and>
     sharedSecret toy_primitives (staticIdentity_privateKey example_initiator)
       (r_Ephemeral example_response) = Inr [30] \<and>
     aead_Open toy_primitives
       (response_key toy_primitives (peer_handshake example_initiator 0) example_response [60] [30])
       ZeroNonce (r_Empty example_response)
       (response_auth_hash toy_primitives (peer_handshake example_initiator 0) example_response
          [60] [30]) = Some []"
    by (simp add: example_defs response_defs)
  have vals:
    "entry_peer (Lookup (indexTable example_initiator) (r_Receiver example_response)) = Some 0"
    "response_hash toy_primitives (peer_handshake example_initiator 0) example_response
       [60] [30] = [152]"
    "response_chainKey toy_primitives (peer_handshake example_initiator 0) example_response
       [60] [30] = [6]"
    "r_Sender example_response = 40"
    by (simp_all add: example_defs response_defs)
  have wrong_type: "r_Type (example_response\<lparr>r_Type := 1\<rparr>) \<noteq> MessageResponseType"
    by (simp add: MessageResponseType_def)
  have unknown: "indexTable example_initiator (r_Receiver (example_response\<lparr>r_Receiver := 8\<rparr>)) = None"
    by (simp add: example_defs)
  have wrong_state:
    "entry_handshake (Lookup (indexTable example_transport) (r_Receiver example_response)) = Some 0 \<and>
     state (peer_handshake example_transport 0) \<noteq> handshakeInitiationCreated"
    by (simp add: example_defs)
  have bad_tag:
    "entry_handshake (Lookup (indexTable example_initiator)
        (r_Receiver (example_response\<lparr>r_Empty := [81]\<rparr>))) = Some 0 \<and>
     sharedSecret toy_primitives (localEphemeral (peer_handshake example_initiator 0))
       (r_Ephemeral (example_response\<lparr>r_Empty := [81]\<rparr>)) = Inr [60] \<and>
     sharedSecret toy_primitives (staticIdentity_privateKey example_initiator)
       (r_Ephemeral (example_response\<lparr>r_Empty := [81]\<rparr>)) = Inr [30] \<and>
     aead_Open toy_primitives
       (response_key toy_primitives (peer_handshake example_initiator 0)
          (example_response\<lparr>r_Empty := [81]\<rparr>) [60] [30])
       ZeroNonce (r_Empty (example_response\<lparr>r_Empty := [81]\<rparr>))
       (response_auth_hash toy_primitives (peer_handshake example_initiator 0)
          (example_response\<lparr>r_Empty := [81]\<rparr>) [60] [30]) = None"
    by (simp add: example_defs response_defs)
  from ok_hyps vals
    ConsumeMessageResponse_commits_on_success_only
      [where msg = example_response and P = toy_primitives and tr = example_initiator
         and h = 0 and ?ss1.0 = "[60]" and ?ss2.0 = "[30]" and pt = "[]"]
  have c1: "ConsumeMessageResponse toy_primitives example_initiator example_response =
     (Some 0,
      set_handshake example_initiator 0
        ((peer_handshake example_initiator 0)
           \<lparr>hash := [152], chainKey := [6], remoteIndex := 40,
            state := handshakeResponseConsumed\<rparr>))"
    by simp
  from wrong_type
    ConsumeMessageResponse_commits_on_success_only
      [where msg = "example_response\<lparr>r_Type := 1\<rparr>" and P = toy_primitives
         and tr = example_initiator]
  have c2: "ConsumeMessageResponse toy_primitives example_initiator
      (example_response\<lparr>r_Type := 1\<rparr>) = (None, example_initiator)"
    by blast
  from unknown
    ConsumeMessageResponse_commits_on_success_only
      [where msg = "example_response\<lparr>r_Receiver := 8\<rparr>" and P = toy_primitives
         and tr = example_initiator]
  have c3: "ConsumeMessageResponse toy_primitives example_initiator
      (example_response\<lparr>r_Receiver := 8\<rparr>) = (None, example_initiator)"
    by blast
  from wrong_state
    ConsumeMessageResponse_commits_on_success_only
      [where msg = example_response and P = toy_primitives and tr = example_transport and h = 0]
  have c4: "ConsumeMessageResponse toy_primitives example_transport example_response =
      (None, example_transport)"
    by blast
  from bad_tag
    ConsumeMessageResponse_commits_on_success_only
      [where msg = "example_response\<lparr>r_Empty := [81]\<rparr>" and P = toy_primitives
         and tr = example_initiator and h = 0 and ?ss1.0 = "[60]" and ?ss2.0 = "[30]"]
  have c5: "ConsumeMessageResponse toy_primitives example_initiator
      (example_response\<lparr>r_Empty := [81]\<rparr>) = (None, example_initiator)"
    by blast
  from c1 c2 c3 c4 c5 show ?thesis
    by blast
qed

subsection \<open>Creating the response\<close>

lemma NewIndexForHandshake_ok:
  "fst (NewIndexForHandshake t p h draws) = (i, None) \<Longrightarrow>
     t i = None \<and> i \<in> set draws \<and>
     snd (NewIndexForHandshake t p h draws) =
       t(i \<mapsto> \<lparr>entry_peer = Some p, entry_handshake = Some h, entry_keypair = None\<rparr>)"
  by (induction draws) (auto split: if_splits)

lemma NewIndexForHandshake_error:
  "snd (fst (NewIndexForHandshake t p h draws)) \<noteq> None \<Longrightarrow>
     snd (NewIndexForHandshake t p h draws) = t \<and>
     fst (fst (NewIndexForHandshake t p h draws)) = 0 \<and> (\<forall>d\<in>set draws. t d \<noteq> None)"
  by (induction draws) (auto split: if_splits)

lemma NewIndexForHandshake_free_draw:
  "\<exists>d\<in>set draws. t d = None \<Longrightarrow> \<exists>i. fst (NewIndexForHandshake t p h draws) = (i, None)"
  by (induction draws) auto

lemma indexTable_set_handshake: "indexTable (set_handshake tr p h) = indexTable tr"
  by (simp add: set_handshake_def)

lemma state_mix:
  "state (Handshake_mixHash P h d) = state h"
  "state (Handshake_mixKey P h d) = state h"
  "localIndex (Handshake_mixHash P h d) = localIndex h"
  "localIndex (Handshake_mixKey P h d) = localIndex h"
  by (simp_all add: Handshake_mixHash_def Handshake_mixKey_def)

lemma CreateMessageResponse_wrong_state:
  "state (peer_handshake tr p) \<noteq> handshakeInitiationConsumed \<Longrightarrow>
     CreateMessageResponse P tr p draws nk = (Inl errInitiationNotConsumed, tr)"
  by (simp add: CreateMessageResponse_def Let_def)

lemma CreateMessageResponse_table:
  "state (peer_handshake tr p) = handshakeInitiationConsumed \<Longrightarrow>
     indexTable (snd (CreateMessageResponse P tr p draws nk)) =
       snd (NewIndexForHandshake (Delete (indexTable tr) (localIndex (peer_handshake tr p)))
              p p draws) \<and>
     localIndex (peer_handshake (snd (CreateMessageResponse P tr p draws nk)) p) =
       fst (fst (NewIndexForHandshake (Delete (indexTable tr) (localIndex (peer_handshake tr p)))
              p p draws))"
  by (simp add: CreateMessageResponse_def Let_def split_beta indexTable_set_handshake
      peer_handshake_set_handshake state_mix split: option.split sum.split)

lemma CreateMessageResponse_result:
  "state (peer_handshake tr p) = handshakeInitiationConsumed \<Longrightarrow>
     (case fst (CreateMessageResponse P tr p draws nk) of
        Inl e \<Rightarrow>
          state (peer_handshake (snd (CreateMessageResponse P tr p draws nk)) p) =
            handshakeInitiationConsumed
      | Inr msg \<Rightarrow>
          state (peer_handshake (snd (CreateMessageResponse P tr p draws nk)) p) =
            handshakeResponseCreated \<and>
          r_Type msg = MessageResponseType \<and>
          r_Sender msg = localIndex (peer_handshake (snd (CreateMessageResponse P tr p draws nk)) p) \<and>
          r_Receiver msg = remoteIndex (peer_handshake tr p) \<and>
          snd (fst (NewIndexForHandshake
                 (Delete (indexTable tr) (localIndex (peer_handshake tr p))) p p draws)) = None)"
  by (simp add: CreateMessageResponse_def Let_def split_beta indexTable_set_handshake
      peer_handshake_set_handshake state_mix split: option.split sum.split)

text \<open>
  Claim C7. In any state other than InitiationConsumed, \<open>CreateMessageResponse\<close>
  returns an error and changes nothing. In state InitiationConsumed the index table it
  leaves is built on the table with the prior local index deleted: when the allocation
  yields an index, that index was free there, is bound to the peer and its handshake, and
  is the new local index; when the allocation fails, the call fails. When the call
  succeeds the state is ResponseCreated and the sender of the message is the new local
  index; when it fails the state is still InitiationConsumed.
\<close>

theorem CreateMessageResponse_requires_consumed_initiation:
  "(state (peer_handshake tr p) \<noteq> handshakeInitiationConsumed \<longrightarrow>
      CreateMessageResponse P tr p draws nk = (Inl errInitiationNotConsumed, tr)) \<and>
   (state (peer_handshake tr p) = handshakeInitiationConsumed \<longrightarrow>
      (fst (NewIndexForHandshake (Delete (indexTable tr) (localIndex (peer_handshake tr p)))
              p p draws) = (i, None) \<longrightarrow>
         Delete (indexTable tr) (localIndex (peer_handshake tr p)) i = None \<and>
         indexTable (snd (CreateMessageResponse P tr p draws nk)) =
           (Delete (indexTable tr) (localIndex (peer_handshake tr p)))
             (i \<mapsto> \<lparr>entry_peer = Some p, entry_handshake = Some p, entry_keypair = None\<rparr>) \<and>
         localIndex (peer_handshake (snd (CreateMessageResponse P tr p draws nk)) p) = i) \<and>
      (snd (fst (NewIndexForHandshake (Delete (indexTable tr) (localIndex (peer_handshake tr p)))
              p p draws)) \<noteq> None \<longrightarrow>
         indexTable (snd (CreateMessageResponse P tr p draws nk)) =
           Delete (indexTable tr) (localIndex (peer_handshake tr p)) \<and>
         (\<exists>e. fst (CreateMessageResponse P tr p draws nk) = Inl e)) \<and>
      (fst (CreateMessageResponse P tr p draws nk) = Inr msg \<longrightarrow>
         state (peer_handshake (snd (CreateMessageResponse P tr p draws nk)) p) =
           handshakeResponseCreated \<and>
         r_Sender msg = localIndex (peer_handshake (snd (CreateMessageResponse P tr p draws nk)) p) \<and>
         (\<exists>j. fst (NewIndexForHandshake (Delete (indexTable tr) (localIndex (peer_handshake tr p)))
              p p draws) = (j, None))) \<and>
      (fst (CreateMessageResponse P tr p draws nk) = Inl e \<longrightarrow>
         state (peer_handshake (snd (CreateMessageResponse P tr p draws nk)) p) =
           handshakeInitiationConsumed))"
proof (intro conjI impI)
  assume "state (peer_handshake tr p) \<noteq> handshakeInitiationConsumed"
  then show "CreateMessageResponse P tr p draws nk = (Inl errInitiationNotConsumed, tr)"
    by (rule CreateMessageResponse_wrong_state)
next
  let ?T = "Delete (indexTable tr) (localIndex (peer_handshake tr p))"
  let ?R = "CreateMessageResponse P tr p draws nk"
  assume st: "state (peer_handshake tr p) = handshakeInitiationConsumed"
  note table = CreateMessageResponse_table [OF st, of P draws nk]
  note result = CreateMessageResponse_result [OF st, of P draws nk]
  {
    assume new: "fst (NewIndexForHandshake ?T p p draws) = (i, None)"
    from NewIndexForHandshake_ok [OF this]
    have free: "?T i = None" and
      bound: "snd (NewIndexForHandshake ?T p p draws) =
        ?T(i \<mapsto> \<lparr>entry_peer = Some p, entry_handshake = Some p, entry_keypair = None\<rparr>)"
      by simp_all
    from free show "?T i = None" .
    from table bound show "indexTable (snd ?R) =
        ?T(i \<mapsto> \<lparr>entry_peer = Some p, entry_handshake = Some p, entry_keypair = None\<rparr>)"
      by simp
    from table new show "localIndex (peer_handshake (snd ?R) p) = i"
      by simp
  }
  {
    assume err: "snd (fst (NewIndexForHandshake ?T p p draws)) \<noteq> None"
    from NewIndexForHandshake_error [OF this] table
    show "indexTable (snd ?R) = ?T"
      by simp
    from result err show "\<exists>e. fst ?R = Inl e"
      by (cases "fst ?R") simp_all
  }
  {
    assume ok: "fst ?R = Inr msg"
    with result show "state (peer_handshake (snd ?R) p) = handshakeResponseCreated"
      and "r_Sender msg = localIndex (peer_handshake (snd ?R) p)"
      by simp_all
    from ok result have "snd (fst (NewIndexForHandshake ?T p p draws)) = None"
      by simp
    then show "\<exists>j. fst (NewIndexForHandshake ?T p p draws) = (j, None)"
      by (cases "fst (NewIndexForHandshake ?T p p draws)") auto
  }
  {
    assume "fst ?R = Inl e"
    with result show "state (peer_handshake (snd ?R) p) = handshakeInitiationConsumed"
      by simp
  }
qed

lemmas responder_defs =
  responder_consumed_def responder_transport_def responder_peer_def responder_handshake_def

theorem CreateMessageResponse_requires_consumed_initiation_witness:
  "CreateMessageResponse toy_primitives responder_transport 0 [40] ([5], None) =
     (Inl errInitiationNotConsumed, responder_transport) \<and>
   fst (CreateMessageResponse toy_primitives responder_consumed 0 [40] ([5], None)) =
     Inr example_response \<and>
   state (peer_handshake (snd (CreateMessageResponse toy_primitives responder_consumed 0 [40]
     ([5], None))) 0) = handshakeResponseCreated \<and>
   localIndex (peer_handshake (snd (CreateMessageResponse toy_primitives responder_consumed 0 [40]
     ([5], None))) 0) = 40 \<and>
   indexTable (snd (CreateMessageResponse toy_primitives responder_consumed 0 [40] ([5], None))) =
     (Delete Map.empty 0)
       (40 \<mapsto> \<lparr>entry_peer = Some 0, entry_handshake = Some 0, entry_keypair = None\<rparr>)"
proof -
  have st0: "state (peer_handshake responder_transport 0) \<noteq> handshakeInitiationConsumed"
    by (simp add: responder_defs peer_handshake_def)
  have st1: "state (peer_handshake responder_consumed 0) = handshakeInitiationConsumed"
    by (simp add: responder_defs peer_handshake_def set_handshake_def)
  have old: "Delete (indexTable responder_consumed) (localIndex (peer_handshake responder_consumed 0)) =
      Delete Map.empty 0"
    by (simp add: responder_defs peer_handshake_def set_handshake_def)
  have new: "fst (NewIndexForHandshake (Delete Map.empty 0) 0 0 [40]) = (40, None)"
    by (simp add: Delete_def)
  have msg: "fst (CreateMessageResponse toy_primitives responder_consumed 0 [40] ([5], None)) =
     Inr example_response"
    by (simp add: CreateMessageResponse_def Let_def responder_defs peer_handshake_def
        set_handshake_def Delete_def toy_primitives_def example_response_def
        Handshake_mixHash_def Handshake_mixKey_def mixHash_def mixKey_def ZeroNonce_def
        chacha20poly1305_NonceSize_def MessageResponseType_def sum_list_replicate
        NoisePublicKeySize_def poly1305_TagSize_def blake2s_Size128_def)
  have new0: "fst (NewIndexForHandshake
      (Delete (indexTable responder_consumed) (localIndex (peer_handshake responder_consumed 0)))
      0 0 [40]) = (40, None)"
    unfolding old by (rule new)
  note wrong = CreateMessageResponse_requires_consumed_initiation
    [where tr = responder_transport and p = 0 and P = toy_primitives and draws = "[40]"
       and nk = "([5], None)", THEN conjunct1, rule_format, OF st0]
  note right = CreateMessageResponse_requires_consumed_initiation
    [where tr = responder_consumed and p = 0 and P = toy_primitives and draws = "[40]"
       and nk = "([5], None)" and i = 40 and msg = example_response,
     THEN conjunct2, rule_format, OF st1]
  note alloc = right [THEN conjunct1, rule_format, OF new0]
  note fin = right [THEN conjunct2, THEN conjunct2, THEN conjunct1, rule_format, OF msg]
  from alloc have table: "indexTable (snd (CreateMessageResponse toy_primitives responder_consumed 0
       [40] ([5], None))) =
       (Delete Map.empty 0)
         (40 \<mapsto> \<lparr>entry_peer = Some 0, entry_handshake = Some 0, entry_keypair = None\<rparr>)"
    and index: "localIndex (peer_handshake (snd (CreateMessageResponse toy_primitives
       responder_consumed 0 [40] ([5], None))) 0) = 40"
    unfolding old by simp_all
  from fin have st: "state (peer_handshake (snd (CreateMessageResponse toy_primitives
       responder_consumed 0 [40] ([5], None))) 0) = handshakeResponseCreated"
    by simp
  from wrong msg st index table show ?thesis
    by (intro conjI)
qed

subsection \<open>Creating the initiation\<close>

lemma fields_mix:
  "precomputedStaticStatic (Handshake_mixHash P h d) = precomputedStaticStatic h"
  "precomputedStaticStatic (Handshake_mixKey P h d) = precomputedStaticStatic h"
  "remoteStatic (Handshake_mixHash P h d) = remoteStatic h"
  "remoteStatic (Handshake_mixKey P h d) = remoteStatic h"
  "localEphemeral (Handshake_mixHash P h d) = localEphemeral h"
  "localEphemeral (Handshake_mixKey P h d) = localEphemeral h"
  by (simp_all add: Handshake_mixHash_def Handshake_mixKey_def)

lemma CreateMessageInitiation_result:
  "(case fst (CreateMessageInitiation P tr p nk now draws) of
      Inl e \<Rightarrow>
        state (peer_handshake (snd (CreateMessageInitiation P tr p nk now draws)) p) =
          state (peer_handshake tr p)
    | Inr msg \<Rightarrow>
        state (peer_handshake (snd (CreateMessageInitiation P tr p nk now draws)) p) =
          handshakeInitiationCreated \<and>
        \<not> isZero (precomputedStaticStatic (peer_handshake tr p)) \<and>
        Type msg = MessageInitiationType \<and>
        fst (NewIndexForHandshake (Delete (indexTable tr) (localIndex (peer_handshake tr p)))
               p p draws) = (Sender msg, None) \<and>
        localIndex (peer_handshake (snd (CreateMessageInitiation P tr p nk now draws)) p) =
          Sender msg \<and>
        indexTable (snd (CreateMessageInitiation P tr p nk now draws)) =
          snd (NewIndexForHandshake (Delete (indexTable tr) (localIndex (peer_handshake tr p)))
                 p p draws))"
  by (simp add: CreateMessageInitiation_def Let_def split_beta indexTable_set_handshake
      peer_handshake_set_handshake state_mix fields_mix prod_eq_iff
      split: option.split sum.split)

lemma CreateMessageInitiation_zero:
  "isZero (precomputedStaticStatic (peer_handshake tr p)) \<Longrightarrow>
     snd nk = None \<Longrightarrow>
     sharedSecret P (fst nk) (remoteStatic (peer_handshake tr p)) = Inr ss \<Longrightarrow>
     fst (CreateMessageInitiation P tr p nk now draws) = Inl errInvalidPublicKey"
  by (simp add: CreateMessageInitiation_def Let_def split_beta fields_mix)

text \<open>
  Claim C6, as amended. When the precomputed static-static secret of the peer is all-zero,
  \<open>CreateMessageInitiation\<close> fails and leaves the handshake state as it was; the error
  is InvalidPublicKey when the ephemeral key was generated and the shared secret of the
  ephemeral key with the remote static key was computed (a failure of one of these two
  steps comes first and returns its own error). On success the sender index of the
  message was free in the index table with the prior local index deleted, the table is
  that table with the index bound to the peer and its handshake, the index is the local
  index of the handshake, and the state is InitiationCreated.
\<close>

theorem CreateMessageInitiation_zero_static_static:
  "(isZero (precomputedStaticStatic (peer_handshake tr p)) \<longrightarrow>
      (\<exists>e. fst (CreateMessageInitiation P tr p nk now draws) = Inl e) \<and>
      state (peer_handshake (snd (CreateMessageInitiation P tr p nk now draws)) p) =
        state (peer_handshake tr p) \<and>
      (snd nk = None \<and> sharedSecret P (fst nk) (remoteStatic (peer_handshake tr p)) = Inr ss \<longrightarrow>
         fst (CreateMessageInitiation P tr p nk now draws) = Inl errInvalidPublicKey)) \<and>
   (fst (CreateMessageInitiation P tr p nk now draws) = Inr msg \<longrightarrow>
      Delete (indexTable tr) (localIndex (peer_handshake tr p)) (Sender msg) = None \<and>
      indexTable (snd (CreateMessageInitiation P tr p nk now draws)) =
        (Delete (indexTable tr) (localIndex (peer_handshake tr p)))
          (Sender msg \<mapsto> \<lparr>entry_peer = Some p, entry_handshake = Some p, entry_keypair = None\<rparr>) \<and>
      localIndex (peer_handshake (snd (CreateMessageInitiation P tr p nk now draws)) p) =
        Sender msg \<and>
      state (peer_handshake (snd (CreateMessageInitiation P tr p nk now draws)) p) =
        handshakeInitiationCreated)"
proof (intro conjI impI)
  let ?R = "CreateMessageInitiation P tr p nk now draws"
  let ?T = "Delete (indexTable tr) (localIndex (peer_handshake tr p))"
  note result = CreateMessageInitiation_result [of P tr p nk now draws]
  {
    assume zero: "isZero (precomputedStaticStatic (peer_handshake tr p))"
    with result show failed: "\<exists>e. fst ?R = Inl e"
      by (cases "fst ?R") simp_all
    with result show "state (peer_handshake (snd ?R) p) = state (peer_handshake tr p)"
      by auto
    assume "snd nk = None \<and> sharedSecret P (fst nk) (remoteStatic (peer_handshake tr p)) = Inr ss"
    with zero show "fst ?R = Inl errInvalidPublicKey"
      by (simp add: CreateMessageInitiation_zero)
  }
  {
    assume ok: "fst ?R = Inr msg"
    with result have new: "fst (NewIndexForHandshake ?T p p draws) = (Sender msg, None)"
      and table: "indexTable (snd ?R) = snd (NewIndexForHandshake ?T p p draws)"
      by simp_all
    from NewIndexForHandshake_ok [OF new] table
    show "?T (Sender msg) = None"
      and "indexTable (snd ?R) =
        ?T(Sender msg \<mapsto> \<lparr>entry_peer = Some p, entry_handshake = Some p, entry_keypair = None\<rparr>)"
      by simp_all
    from ok result show "localIndex (peer_handshake (snd ?R) p) = Sender msg"
      and "state (peer_handshake (snd ?R) p) = handshakeInitiationCreated"
      by simp_all
  }
qed

lemmas create_initiation_eval =
  CreateMessageInitiation_def Let_def example_zero_static_def example_transport_def
  example_table_def example_peer_def example_handshake_def peer_handshake_def
  set_handshake_def Delete_def toy_primitives_def example_initiation_def
  Handshake_mixHash_def Handshake_mixKey_def mixHash_def mixKey_def ZeroNonce_def
  chacha20poly1305_NonceSize_def MessageInitiationType_def sum_list_replicate
  NoisePublicKeySize_def poly1305_TagSize_def blake2s_Size128_def tai64n_TimestampSize_def
  InitialHash_def InitialChainKey_def bytes_of_string_def NoiseConstruction_def
  NoiseIdentifier_def isZero_def

text \<open>
  The claim as first stated, that the error is InvalidPublicKey whenever the secret is
  all-zero, fails when the generation of the ephemeral key fails: that error is returned
  before the secret is looked at.
\<close>

theorem CreateMessageInitiation_error_counterexample:
  "isZero (precomputedStaticStatic (peer_handshake example_zero_static 0)) \<and>
   fst (CreateMessageInitiation toy_primitives example_zero_static 0
          ([0], Some (errExternal ''rand'')) [0, 9] [7]) = Inl (errExternal ''rand'') \<and>
   fst (CreateMessageInitiation toy_primitives example_zero_static 0
          ([0], Some (errExternal ''rand'')) [0, 9] [7]) \<noteq> Inl errInvalidPublicKey"
  by (simp add: create_initiation_eval)

theorem CreateMessageInitiation_zero_static_static_witness:
  "isZero (precomputedStaticStatic (peer_handshake example_zero_static 0)) \<and>
   fst (CreateMessageInitiation toy_primitives example_zero_static 0 ([4], None) [0, 9] [7]) =
     Inl errInvalidPublicKey \<and>
   state (peer_handshake (snd (CreateMessageInitiation toy_primitives example_zero_static 0
     ([4], None) [0, 9] [7])) 0) = handshakeZeroed \<and>
   fst (CreateMessageInitiation toy_primitives example_transport 0 ([4], None) [0, 9] [7]) =
     Inr example_initiation \<and>
   state (peer_handshake (snd (CreateMessageInitiation toy_primitives example_transport 0
     ([4], None) [0, 9] [7])) 0) = handshakeInitiationCreated \<and>
   localIndex (peer_handshake (snd (CreateMessageInitiation toy_primitives example_transport 0
     ([4], None) [0, 9] [7])) 0) = 7 \<and>
   indexTable (snd (CreateMessageInitiation toy_primitives example_transport 0
     ([4], None) [0, 9] [7])) =
     (Delete example_table 7)
       (7 \<mapsto> \<lparr>entry_peer = Some 0, entry_handshake = Some 0, entry_keypair = None\<rparr>)"
proof -
  have zero: "isZero (precomputedStaticStatic (peer_handshake example_zero_static 0))"
    by (simp add: example_zero_static_def peer_handshake_def set_handshake_def isZero_def)
  have steps: "snd ([4], None) = None \<and>
    sharedSecret toy_primitives (fst ([4], None))
      (remoteStatic (peer_handshake example_zero_static 0)) = Inr [36]"
    by (simp add: example_zero_static_def example_handshake_def peer_handshake_def
        set_handshake_def toy_primitives_def)
  have before: "state (peer_handshake example_zero_static 0) = handshakeZeroed"
    by (simp add: example_zero_static_def example_handshake_def peer_handshake_def
        set_handshake_def)
  have msg: "fst (CreateMessageInitiation toy_primitives example_transport 0 ([4], None)
      [0, 9] [7]) = Inr example_initiation"
    by (simp add: create_initiation_eval)
  have old: "Delete (indexTable example_transport) (localIndex (peer_handshake example_transport 0)) =
      Delete example_table 7"
    by (simp add: example_transport_def example_peer_def example_handshake_def
        peer_handshake_def)
  have sender: "Sender example_initiation = 7"
    by (simp add: example_initiation_def)
  note failing = CreateMessageInitiation_zero_static_static
    [where tr = example_zero_static and p = 0 and P = toy_primitives and nk = "([4], None)"
       and now = "[0, 9]" and draws = "[7]" and ss = "[36]",
     THEN conjunct1, rule_format, OF zero]
  note created = CreateMessageInitiation_zero_static_static
    [where tr = example_transport and p = 0 and P = toy_primitives and nk = "([4], None)"
       and now = "[0, 9]" and draws = "[7]" and msg = example_initiation,
     THEN conjunct2, rule_format, OF msg]
  from failing [THEN conjunct2, THEN conjunct2, rule_format, OF steps]
  have c1: "fst (CreateMessageInitiation toy_primitives example_zero_static 0 ([4], None)
      [0, 9] [7]) = Inl errInvalidPublicKey" .
  from failing [THEN conjunct2, THEN conjunct1] before
  have c2: "state (peer_handshake (snd (CreateMessageInitiation toy_primitives
      example_zero_static 0 ([4], None) [0, 9] [7])) 0) = handshakeZeroed"
    by simp
  from created have c3:
    "state (peer_handshake (snd (CreateMessageInitiation toy_primitives example_transport 0
       ([4], None) [0, 9] [7])) 0) = handshakeInitiationCreated"
    "localIndex (peer_handshake (snd (CreateMessageInitiation toy_primitives example_transport 0
       ([4], None) [0, 9] [7])) 0) = 7"
    "indexTable (snd (CreateMessageInitiation toy_primitives example_transport 0
       ([4], None) [0, 9] [7])) =
       (Delete example_table 7)
         (7 \<mapsto> \<lparr>entry_peer = Some 0, entry_handshake = Some 0, entry_keypair = None\<rparr>)"
    unfolding old sender by simp_all
  from zero c1 c2 msg c3 show ?thesis
    by (intro conjI)
qed

subsection \<open>Consuming the initiation\<close>

lemmas initiation_defs =
  initiation_static_hash_def initiation_static_KDF2_def initiation_static_key_def
  initiation_timestamp_hash_def initiation_timestamp_KDF2_def initiation_timestamp_key_def
  initiation_chainKey_def initiation_hash_def

text \<open>The checks of \<open>ConsumeMessageInitiation\<close> up to the replay and flood tests.\<close>

lemma ConsumeMessageInitiation_cases:
  "ConsumeMessageInitiation P rate tr msg clock now = (None, tr) \<or>
   (\<exists>ss peerPK p ts.
      Type msg = MessageInitiationType \<and>
      sharedSecret P (staticIdentity_privateKey tr) (Ephemeral msg) = Inr ss \<and>
      aead_Open P (initiation_static_key P msg ss) ZeroNonce (Static msg)
        (initiation_static_hash P tr msg) = Some peerPK \<and>
      LookupPeer tr peerPK = Some p \<and>
      isRunning (peerStore tr p) \<and>
      \<not> isZero (precomputedStaticStatic (peer_handshake tr p)) \<and>
      aead_Open P (initiation_timestamp_key P msg ss (precomputedStaticStatic (peer_handshake tr p)))
        ZeroNonce (Timestamp msg) (initiation_timestamp_hash P tr msg) = Some ts \<and>
      tai64n_After ts (lastTimestamp (peer_handshake tr p)) \<and>
      rate < time_Since clock (lastInitiationConsumption (peer_handshake tr p)))"
  by (auto simp add: ConsumeMessageInitiation_def Let_def split_beta initiation_defs
      split: sum.split option.split)

lemma ConsumeMessageInitiation_accept:
  assumes "Type msg = MessageInitiationType"
    and "sharedSecret P (staticIdentity_privateKey tr) (Ephemeral msg) = Inr ss"
    and "aead_Open P (initiation_static_key P msg ss) ZeroNonce (Static msg)
        (initiation_static_hash P tr msg) = Some peerPK"
    and "LookupPeer tr peerPK = Some p"
    and "isRunning (peerStore tr p)"
    and "\<not> isZero (precomputedStaticStatic (peer_handshake tr p))"
    and "aead_Open P (initiation_timestamp_key P msg ss (precomputedStaticStatic (peer_handshake tr p)))
        ZeroNonce (Timestamp msg) (initiation_timestamp_hash P tr msg) = Some ts"
    and "tai64n_After ts (lastTimestamp (peer_handshake tr p))"
    and "rate < time_Since clock (lastInitiationConsumption (peer_handshake tr p))"
  shows "ConsumeMessageInitiation P rate tr msg clock now =
    (Some p,
     set_handshake tr p
       ((peer_handshake tr p)
          \<lparr>hash := initiation_hash P tr msg,
           chainKey := initiation_chainKey P msg ss (precomputedStaticStatic (peer_handshake tr p)),
           remoteIndex := Sender msg,
           remoteEphemeral := Ephemeral msg,
           lastTimestamp := ts,
           lastInitiationConsumption :=
             (if time_After now (lastInitiationConsumption (peer_handshake tr p)) then now
              else lastInitiationConsumption (peer_handshake tr p)),
           state := handshakeInitiationConsumed\<rparr>))"
  using assms
  by (simp add: ConsumeMessageInitiation_def Let_def split_beta initiation_defs)

lemma ConsumeMessageInitiation_reject:
  "Type msg \<noteq> MessageInitiationType \<Longrightarrow>
     ConsumeMessageInitiation P rate tr msg clock now = (None, tr)"
  "sharedSecret P (staticIdentity_privateKey tr) (Ephemeral msg) = Inl e \<Longrightarrow>
     ConsumeMessageInitiation P rate tr msg clock now = (None, tr)"
  "sharedSecret P (staticIdentity_privateKey tr) (Ephemeral msg) = Inr ss \<Longrightarrow>
   aead_Open P (initiation_static_key P msg ss) ZeroNonce (Static msg)
     (initiation_static_hash P tr msg) = None \<Longrightarrow>
     ConsumeMessageInitiation P rate tr msg clock now = (None, tr)"
  "sharedSecret P (staticIdentity_privateKey tr) (Ephemeral msg) = Inr ss \<Longrightarrow>
   aead_Open P (initiation_static_key P msg ss) ZeroNonce (Static msg)
     (initiation_static_hash P tr msg) = Some peerPK \<Longrightarrow>
   LookupPeer tr peerPK = None \<Longrightarrow>
     ConsumeMessageInitiation P rate tr msg clock now = (None, tr)"
  by (simp_all add: ConsumeMessageInitiation_def Let_def split_beta initiation_defs)

lemma ConsumeMessageInitiation_reject_peer:
  assumes "sharedSecret P (staticIdentity_privateKey tr) (Ephemeral msg) = Inr ss"
    and "aead_Open P (initiation_static_key P msg ss) ZeroNonce (Static msg)
     (initiation_static_hash P tr msg) = Some peerPK"
    and "LookupPeer tr peerPK = Some p"
  shows
  "\<not> isRunning (peerStore tr p) \<Longrightarrow>
     ConsumeMessageInitiation P rate tr msg clock now = (None, tr)"
  "isZero (precomputedStaticStatic (peer_handshake tr p)) \<Longrightarrow>
     ConsumeMessageInitiation P rate tr msg clock now = (None, tr)"
  "aead_Open P (initiation_timestamp_key P msg ss (precomputedStaticStatic (peer_handshake tr p)))
     ZeroNonce (Timestamp msg) (initiation_timestamp_hash P tr msg) = None \<Longrightarrow>
     ConsumeMessageInitiation P rate tr msg clock now = (None, tr)"
  "aead_Open P (initiation_timestamp_key P msg ss (precomputedStaticStatic (peer_handshake tr p)))
     ZeroNonce (Timestamp msg) (initiation_timestamp_hash P tr msg) = Some ts \<Longrightarrow>
   \<not> tai64n_After ts (lastTimestamp (peer_handshake tr p)) \<Longrightarrow>
     ConsumeMessageInitiation P rate tr msg clock now = (None, tr)"
  "aead_Open P (initiation_timestamp_key P msg ss (precomputedStaticStatic (peer_handshake tr p)))
     ZeroNonce (Timestamp msg) (initiation_timestamp_hash P tr msg) = Some ts \<Longrightarrow>
   time_Since clock (lastInitiationConsumption (peer_handshake tr p)) \<le> rate \<Longrightarrow>
     ConsumeMessageInitiation P rate tr msg clock now = (None, tr)"
  using assms
  by (simp_all add: ConsumeMessageInitiation_def Let_def split_beta initiation_defs)

lemma time_Since_positive:
  "0 \<le> rate \<Longrightarrow> rate < time_Since clock t \<Longrightarrow> clock \<le> now \<Longrightarrow> time_After now t"
  by (simp add: time_Since_def time_After_def Let_def minDuration_def maxDuration_def
      split: if_splits)

text \<open>
  Claim C1, as amended. \<open>ConsumeMessageInitiation\<close> returns no peer and leaves the
  transport as it was when the type is not 1, the shared secret of the static private key
  with the ephemeral key of the message fails, the static key does not open, the peer
  lookup by the decrypted static key misses, the peer is not running, its precomputed
  static-static secret is all-zero, the timestamp does not open, the decrypted timestamp is
  \<open>\<le>\<close> the last timestamp, or the time since the last consumption is \<open>\<le>\<close> the
  initiation rate. When none of these holds it returns the peer and commits the hash, the
  chain key, the remote index, the remote ephemeral key, the timestamp and the state
  InitiationConsumed, and the time of the consumption when that is later than the one
  stored, which it is under a clock that does not run backwards and a rate that is not
  negative. So a call that returns no peer changes nothing, and a call that returns a peer
  had a timestamp strictly greater than the prior last timestamp.
\<close>

theorem ConsumeMessageInitiation_rejects_or_commits:
  "(Type msg \<noteq> MessageInitiationType \<longrightarrow> ConsumeMessageInitiation P HandshakeInitationRate tr msg clock now = (None, tr)) \<and>
   (sharedSecret P (staticIdentity_privateKey tr) (Ephemeral msg) = Inl e \<longrightarrow>
      ConsumeMessageInitiation P HandshakeInitationRate tr msg clock now = (None, tr)) \<and>
   (sharedSecret P (staticIdentity_privateKey tr) (Ephemeral msg) = Inr ss \<and>
    aead_Open P (initiation_static_key P msg ss) ZeroNonce (Static msg)
      (initiation_static_hash P tr msg) = None \<longrightarrow>
      ConsumeMessageInitiation P HandshakeInitationRate tr msg clock now = (None, tr)) \<and>
   (sharedSecret P (staticIdentity_privateKey tr) (Ephemeral msg) = Inr ss \<and>
    aead_Open P (initiation_static_key P msg ss) ZeroNonce (Static msg)
      (initiation_static_hash P tr msg) = Some peerPK \<and>
    LookupPeer tr peerPK = None \<longrightarrow>
      ConsumeMessageInitiation P HandshakeInitationRate tr msg clock now = (None, tr)) \<and>
   (sharedSecret P (staticIdentity_privateKey tr) (Ephemeral msg) = Inr ss \<and>
    aead_Open P (initiation_static_key P msg ss) ZeroNonce (Static msg)
      (initiation_static_hash P tr msg) = Some peerPK \<and>
    LookupPeer tr peerPK = Some p \<and>
    (\<not> isRunning (peerStore tr p) \<or>
     isZero (precomputedStaticStatic (peer_handshake tr p)) \<or>
     aead_Open P (initiation_timestamp_key P msg ss (precomputedStaticStatic (peer_handshake tr p)))
       ZeroNonce (Timestamp msg) (initiation_timestamp_hash P tr msg) = None \<or>
     aead_Open P (initiation_timestamp_key P msg ss (precomputedStaticStatic (peer_handshake tr p)))
       ZeroNonce (Timestamp msg) (initiation_timestamp_hash P tr msg) = Some ts \<and>
     (be_nat ts \<le> be_nat (lastTimestamp (peer_handshake tr p)) \<or>
      time_Since clock (lastInitiationConsumption (peer_handshake tr p))
        \<le> HandshakeInitationRate)) \<longrightarrow>
      ConsumeMessageInitiation P HandshakeInitationRate tr msg clock now = (None, tr)) \<and>
   (Type msg = MessageInitiationType \<and>
    sharedSecret P (staticIdentity_privateKey tr) (Ephemeral msg) = Inr ss \<and>
    aead_Open P (initiation_static_key P msg ss) ZeroNonce (Static msg)
      (initiation_static_hash P tr msg) = Some peerPK \<and>
    LookupPeer tr peerPK = Some p \<and>
    isRunning (peerStore tr p) \<and>
    \<not> isZero (precomputedStaticStatic (peer_handshake tr p)) \<and>
    aead_Open P (initiation_timestamp_key P msg ss (precomputedStaticStatic (peer_handshake tr p)))
      ZeroNonce (Timestamp msg) (initiation_timestamp_hash P tr msg) = Some ts \<and>
    be_nat (lastTimestamp (peer_handshake tr p)) < be_nat ts \<and>
    HandshakeInitationRate <
      time_Since clock (lastInitiationConsumption (peer_handshake tr p)) \<longrightarrow>
      ConsumeMessageInitiation P HandshakeInitationRate tr msg clock now =
        (Some p,
         set_handshake tr p
           ((peer_handshake tr p)
              \<lparr>hash := initiation_hash P tr msg,
               chainKey :=
                 initiation_chainKey P msg ss (precomputedStaticStatic (peer_handshake tr p)),
               remoteIndex := Sender msg,
               remoteEphemeral := Ephemeral msg,
               lastTimestamp := ts,
               lastInitiationConsumption :=
                 (if time_After now (lastInitiationConsumption (peer_handshake tr p)) then now
                  else lastInitiationConsumption (peer_handshake tr p)),
               state := handshakeInitiationConsumed\<rparr>)) \<and>
      (0 \<le> HandshakeInitationRate \<and> clock \<le> now \<longrightarrow>
         time_After now (lastInitiationConsumption (peer_handshake tr p)))) \<and>
   (fst (ConsumeMessageInitiation P HandshakeInitationRate tr msg clock now) = None \<longrightarrow> snd (ConsumeMessageInitiation P HandshakeInitationRate tr msg clock now) = tr) \<and>
   (fst (ConsumeMessageInitiation P HandshakeInitationRate tr msg clock now) \<noteq> None \<longrightarrow>
      (\<exists>ss peerPK p ts. fst (ConsumeMessageInitiation P HandshakeInitationRate tr msg clock now) = Some p \<and>
         lastTimestamp (peer_handshake (snd (ConsumeMessageInitiation P HandshakeInitationRate tr msg clock now)) p) = ts \<and>
         state (peer_handshake (snd (ConsumeMessageInitiation P HandshakeInitationRate tr msg clock now)) p) = handshakeInitiationConsumed \<and>
         Type msg = MessageInitiationType \<and>
    sharedSecret P (staticIdentity_privateKey tr) (Ephemeral msg) = Inr ss \<and>
    aead_Open P (initiation_static_key P msg ss) ZeroNonce (Static msg)
      (initiation_static_hash P tr msg) = Some peerPK \<and>
    LookupPeer tr peerPK = Some p \<and>
    isRunning (peerStore tr p) \<and>
    \<not> isZero (precomputedStaticStatic (peer_handshake tr p)) \<and>
    aead_Open P (initiation_timestamp_key P msg ss (precomputedStaticStatic (peer_handshake tr p)))
      ZeroNonce (Timestamp msg) (initiation_timestamp_hash P tr msg) = Some ts \<and>
    be_nat (lastTimestamp (peer_handshake tr p)) < be_nat ts \<and>
    HandshakeInitationRate <
      time_Since clock (lastInitiationConsumption (peer_handshake tr p))))"
proof -
  let ?R = "ConsumeMessageInitiation P HandshakeInitationRate tr msg clock now"
  have reject1: "Type msg \<noteq> MessageInitiationType \<longrightarrow> ?R = (None, tr)"
    by (simp add: ConsumeMessageInitiation_reject)
  have reject2: "sharedSecret P (staticIdentity_privateKey tr) (Ephemeral msg) = Inl e \<longrightarrow>
      ?R = (None, tr)"
    by (simp add: ConsumeMessageInitiation_reject)
  have reject3: "sharedSecret P (staticIdentity_privateKey tr) (Ephemeral msg) = Inr ss \<and>
    aead_Open P (initiation_static_key P msg ss) ZeroNonce (Static msg)
      (initiation_static_hash P tr msg) = None \<longrightarrow> ?R = (None, tr)"
    by (simp add: ConsumeMessageInitiation_reject)
  have reject4: "sharedSecret P (staticIdentity_privateKey tr) (Ephemeral msg) = Inr ss \<and>
    aead_Open P (initiation_static_key P msg ss) ZeroNonce (Static msg)
      (initiation_static_hash P tr msg) = Some peerPK \<and>
    LookupPeer tr peerPK = None \<longrightarrow> ?R = (None, tr)"
    by (simp add: ConsumeMessageInitiation_reject)
  have reject5: "sharedSecret P (staticIdentity_privateKey tr) (Ephemeral msg) = Inr ss \<and>
    aead_Open P (initiation_static_key P msg ss) ZeroNonce (Static msg)
      (initiation_static_hash P tr msg) = Some peerPK \<and>
    LookupPeer tr peerPK = Some p \<and>
    (\<not> isRunning (peerStore tr p) \<or>
     isZero (precomputedStaticStatic (peer_handshake tr p)) \<or>
     aead_Open P (initiation_timestamp_key P msg ss (precomputedStaticStatic (peer_handshake tr p)))
       ZeroNonce (Timestamp msg) (initiation_timestamp_hash P tr msg) = None \<or>
     aead_Open P (initiation_timestamp_key P msg ss (precomputedStaticStatic (peer_handshake tr p)))
       ZeroNonce (Timestamp msg) (initiation_timestamp_hash P tr msg) = Some ts \<and>
     (be_nat ts \<le> be_nat (lastTimestamp (peer_handshake tr p)) \<or>
      time_Since clock (lastInitiationConsumption (peer_handshake tr p))
        \<le> HandshakeInitationRate)) \<longrightarrow> ?R = (None, tr)"
    using ConsumeMessageInitiation_reject_peer
      [where P = P and tr = tr and msg = msg and ss = ss and peerPK = peerPK and p = p
         and rate = HandshakeInitationRate and clock = clock and now = now]
    by (auto simp add: tai64n_After_def)
  have accept: "Type msg = MessageInitiationType \<and>
    sharedSecret P (staticIdentity_privateKey tr) (Ephemeral msg) = Inr ss \<and>
    aead_Open P (initiation_static_key P msg ss) ZeroNonce (Static msg)
      (initiation_static_hash P tr msg) = Some peerPK \<and>
    LookupPeer tr peerPK = Some p \<and>
    isRunning (peerStore tr p) \<and>
    \<not> isZero (precomputedStaticStatic (peer_handshake tr p)) \<and>
    aead_Open P (initiation_timestamp_key P msg ss (precomputedStaticStatic (peer_handshake tr p)))
      ZeroNonce (Timestamp msg) (initiation_timestamp_hash P tr msg) = Some ts \<and>
    be_nat (lastTimestamp (peer_handshake tr p)) < be_nat ts \<and>
    HandshakeInitationRate <
      time_Since clock (lastInitiationConsumption (peer_handshake tr p)) \<longrightarrow>
      ?R =
        (Some p,
         set_handshake tr p
           ((peer_handshake tr p)
              \<lparr>hash := initiation_hash P tr msg,
               chainKey :=
                 initiation_chainKey P msg ss (precomputedStaticStatic (peer_handshake tr p)),
               remoteIndex := Sender msg,
               remoteEphemeral := Ephemeral msg,
               lastTimestamp := ts,
               lastInitiationConsumption :=
                 (if time_After now (lastInitiationConsumption (peer_handshake tr p)) then now
                  else lastInitiationConsumption (peer_handshake tr p)),
               state := handshakeInitiationConsumed\<rparr>)) \<and>
      (0 \<le> HandshakeInitationRate \<and> clock \<le> now \<longrightarrow>
         time_After now (lastInitiationConsumption (peer_handshake tr p)))"
    using ConsumeMessageInitiation_accept
      [where P = P and tr = tr and msg = msg and ss = ss and peerPK = peerPK and p = p
         and ts = ts and rate = HandshakeInitationRate and clock = clock and now = now]
      time_Since_positive
      [where rate = HandshakeInitationRate and clock = clock and now = now
         and t = "lastInitiationConsumption (peer_handshake tr p)"]
    by (simp add: tai64n_After_def)
  have unchanged: "fst ?R = None \<longrightarrow> snd ?R = tr"
  proof
    assume none: "fst ?R = None"
    from ConsumeMessageInitiation_cases [of P HandshakeInitationRate tr msg clock now]
    show "snd ?R = tr"
    proof
      assume "?R = (None, tr)"
      then show ?thesis by simp
    next
      assume "\<exists>ss peerPK p ts.
        Type msg = MessageInitiationType \<and>
        sharedSecret P (staticIdentity_privateKey tr) (Ephemeral msg) = Inr ss \<and>
        aead_Open P (initiation_static_key P msg ss) ZeroNonce (Static msg)
          (initiation_static_hash P tr msg) = Some peerPK \<and>
        LookupPeer tr peerPK = Some p \<and>
        isRunning (peerStore tr p) \<and>
        \<not> isZero (precomputedStaticStatic (peer_handshake tr p)) \<and>
        aead_Open P (initiation_timestamp_key P msg ss (precomputedStaticStatic (peer_handshake tr p)))
          ZeroNonce (Timestamp msg) (initiation_timestamp_hash P tr msg) = Some ts \<and>
        tai64n_After ts (lastTimestamp (peer_handshake tr p)) \<and>
        HandshakeInitationRate < time_Since clock (lastInitiationConsumption (peer_handshake tr p))"
      then obtain ss' pk' p' ts' where
        "Type msg = MessageInitiationType"
        "sharedSecret P (staticIdentity_privateKey tr) (Ephemeral msg) = Inr ss'"
        "aead_Open P (initiation_static_key P msg ss') ZeroNonce (Static msg)
          (initiation_static_hash P tr msg) = Some pk'"
        "LookupPeer tr pk' = Some p'"
        "isRunning (peerStore tr p')"
        "\<not> isZero (precomputedStaticStatic (peer_handshake tr p'))"
        "aead_Open P (initiation_timestamp_key P msg ss' (precomputedStaticStatic (peer_handshake tr p')))
          ZeroNonce (Timestamp msg) (initiation_timestamp_hash P tr msg) = Some ts'"
        "tai64n_After ts' (lastTimestamp (peer_handshake tr p'))"
        "HandshakeInitationRate < time_Since clock (lastInitiationConsumption (peer_handshake tr p'))"
        by blast
      from ConsumeMessageInitiation_accept [OF this, of now] none
      show ?thesis by simp
    qed
  qed
  have committed: "fst ?R \<noteq> None \<longrightarrow>
      (\<exists>ss peerPK p ts. fst ?R = Some p \<and>
         lastTimestamp (peer_handshake (snd ?R) p) = ts \<and>
         state (peer_handshake (snd ?R) p) = handshakeInitiationConsumed \<and>
         Type msg = MessageInitiationType \<and>
    sharedSecret P (staticIdentity_privateKey tr) (Ephemeral msg) = Inr ss \<and>
    aead_Open P (initiation_static_key P msg ss) ZeroNonce (Static msg)
      (initiation_static_hash P tr msg) = Some peerPK \<and>
    LookupPeer tr peerPK = Some p \<and>
    isRunning (peerStore tr p) \<and>
    \<not> isZero (precomputedStaticStatic (peer_handshake tr p)) \<and>
    aead_Open P (initiation_timestamp_key P msg ss (precomputedStaticStatic (peer_handshake tr p)))
      ZeroNonce (Timestamp msg) (initiation_timestamp_hash P tr msg) = Some ts \<and>
    be_nat (lastTimestamp (peer_handshake tr p)) < be_nat ts \<and>
    HandshakeInitationRate <
      time_Since clock (lastInitiationConsumption (peer_handshake tr p)))"
  proof
    assume some: "fst ?R \<noteq> None"
    with ConsumeMessageInitiation_cases [of P HandshakeInitationRate tr msg clock now]
    obtain ss' pk' p' ts' where conds:
        "Type msg = MessageInitiationType"
        "sharedSecret P (staticIdentity_privateKey tr) (Ephemeral msg) = Inr ss'"
        "aead_Open P (initiation_static_key P msg ss') ZeroNonce (Static msg)
          (initiation_static_hash P tr msg) = Some pk'"
        "LookupPeer tr pk' = Some p'"
        "isRunning (peerStore tr p')"
        "\<not> isZero (precomputedStaticStatic (peer_handshake tr p'))"
        "aead_Open P (initiation_timestamp_key P msg ss' (precomputedStaticStatic (peer_handshake tr p')))
          ZeroNonce (Timestamp msg) (initiation_timestamp_hash P tr msg) = Some ts'"
        "tai64n_After ts' (lastTimestamp (peer_handshake tr p'))"
        "HandshakeInitationRate < time_Since clock (lastInitiationConsumption (peer_handshake tr p'))"
      by auto
    note run = ConsumeMessageInitiation_accept [OF conds, of now]
    have "fst ?R = Some p'"
      unfolding run by simp
    moreover have "lastTimestamp (peer_handshake (snd ?R) p') = ts'"
      unfolding run by (simp add: peer_handshake_set_handshake)
    moreover have "state (peer_handshake (snd ?R) p') = handshakeInitiationConsumed"
      unfolding run by (simp add: peer_handshake_set_handshake)
    moreover have "be_nat (lastTimestamp (peer_handshake tr p')) < be_nat ts'"
      using conds(8) by (simp add: tai64n_After_def)
    ultimately show "\<exists>ss peerPK p ts. fst ?R = Some p \<and>
         lastTimestamp (peer_handshake (snd ?R) p) = ts \<and>
         state (peer_handshake (snd ?R) p) = handshakeInitiationConsumed \<and>
         Type msg = MessageInitiationType \<and>
    sharedSecret P (staticIdentity_privateKey tr) (Ephemeral msg) = Inr ss \<and>
    aead_Open P (initiation_static_key P msg ss) ZeroNonce (Static msg)
      (initiation_static_hash P tr msg) = Some peerPK \<and>
    LookupPeer tr peerPK = Some p \<and>
    isRunning (peerStore tr p) \<and>
    \<not> isZero (precomputedStaticStatic (peer_handshake tr p)) \<and>
    aead_Open P (initiation_timestamp_key P msg ss (precomputedStaticStatic (peer_handshake tr p)))
      ZeroNonce (Timestamp msg) (initiation_timestamp_hash P tr msg) = Some ts \<and>
    be_nat (lastTimestamp (peer_handshake tr p)) < be_nat ts \<and>
    HandshakeInitationRate <
      time_Since clock (lastInitiationConsumption (peer_handshake tr p))"
      using conds by blast
  qed
  from reject1 reject2 reject3 reject4 reject5 accept unchanged committed
  show ?thesis
    by (intro conjI)
qed

lemmas consume_initiation_eval =
  ConsumeMessageInitiation_def Let_def responder_transport_def responder_peer_def
  responder_handshake_def responder_consumed_def peer_handshake_def set_handshake_def
  LookupPeer_def toy_primitives_def example_initiation_def
  mixHash_def mixKey_def ZeroNonce_def chacha20poly1305_NonceSize_def
  MessageInitiationType_def sum_list_replicate
  InitialHash_def InitialChainKey_def bytes_of_string_def NoiseConstruction_def
  NoiseIdentifier_def isZero_def be_nat_def tai64n_After_def time_Since_def time_After_def
  minDuration_def maxDuration_def

text \<open>
  The list of the claim as first stated does not give the exact condition: an initiation
  that arrives exactly one initiation rate after the last consumption is rejected, though
  the time since then is not \<open><\<close> the rate; and an initiation whose shared secret cannot
  be computed is rejected, though none of the listed conditions holds.
\<close>

theorem ConsumeMessageInitiation_listed_rejections_counterexample:
  "fst (ConsumeMessageInitiation toy_primitives 20 responder_transport example_initiation
          1020 1025) = None \<and>
   \<not> listed_rejection toy_primitives 20 responder_transport example_initiation 1020 \<and>
   fst (ConsumeMessageInitiation toy_primitives 20 responder_transport
          (example_initiation\<lparr>Ephemeral := [0]\<rparr>) 1021 1025) = None \<and>
   \<not> listed_rejection toy_primitives 20 responder_transport
        (example_initiation\<lparr>Ephemeral := [0]\<rparr>) 1021"
  by (simp add: consume_initiation_eval listed_rejection_def initiation_defs)

theorem ConsumeMessageInitiation_rejects_or_commits_witness:
  "ConsumeMessageInitiation toy_primitives 20 responder_transport example_initiation 1021 1025 =
     (Some 0,
      set_handshake responder_transport 0
        (responder_handshake
           \<lparr>hash := [50], chainKey := [153], remoteIndex := 7, remoteEphemeral := [12],
            lastTimestamp := [0, 9], lastInitiationConsumption := 1025,
            state := handshakeInitiationConsumed\<rparr>)) \<and>
   ConsumeMessageInitiation toy_primitives 20 responder_transport example_initiation 1020 1025 =
     (None, responder_transport) \<and>
   ConsumeMessageInitiation toy_primitives 20 responder_consumed example_initiation 2000 2001 =
     (None, responder_consumed) \<and>
   ConsumeMessageInitiation toy_primitives 20 responder_transport
     (example_initiation\<lparr>Type := 2\<rparr>) 1021 1025 = (None, responder_transport) \<and>
   ConsumeMessageInitiation toy_primitives 20 responder_transport
     (example_initiation\<lparr>Ephemeral := [0]\<rparr>) 1021 1025 = (None, responder_transport)"
proof -
  have transcript:
    "Type example_initiation = MessageInitiationType"
    "sharedSecret toy_primitives (staticIdentity_privateKey responder_transport)
       (Ephemeral example_initiation) = Inr [36]"
    "aead_Open toy_primitives (initiation_static_key toy_primitives example_initiation [36])
       ZeroNonce (Static example_initiation)
       (initiation_static_hash toy_primitives responder_transport example_initiation) = Some [6]"
    "LookupPeer responder_transport [6] = Some 0"
    "isRunning (peerStore responder_transport 0)"
    "\<not> isZero (precomputedStaticStatic (peer_handshake responder_transport 0))"
    "aead_Open toy_primitives
       (initiation_timestamp_key toy_primitives example_initiation [36]
          (precomputedStaticStatic (peer_handshake responder_transport 0)))
       ZeroNonce (Timestamp example_initiation)
       (initiation_timestamp_hash toy_primitives responder_transport example_initiation) =
       Some [0, 9]"
    by (simp_all add: consume_initiation_eval initiation_defs)
  have fresh:
    "be_nat (lastTimestamp (peer_handshake responder_transport 0)) < be_nat [0, 9]"
    "20 < time_Since 1021 (lastInitiationConsumption (peer_handshake responder_transport 0))"
    by (simp_all add: consume_initiation_eval)
  have flood:
    "time_Since 1020 (lastInitiationConsumption (peer_handshake responder_transport 0)) \<le> 20"
    by (simp add: consume_initiation_eval)
  have committed:
    "peer_handshake responder_transport 0 = responder_handshake"
    "initiation_hash toy_primitives responder_transport example_initiation = [50]"
    "initiation_chainKey toy_primitives example_initiation [36]
       (precomputedStaticStatic responder_handshake) = [153]"
    "Sender example_initiation = 7"
    "Ephemeral example_initiation = [12]"
    "time_After 1025 (lastInitiationConsumption responder_handshake)"
    by (simp_all add: consume_initiation_eval initiation_defs)
  have transcript2:
    "sharedSecret toy_primitives (staticIdentity_privateKey responder_consumed)
       (Ephemeral example_initiation) = Inr [36]"
    "aead_Open toy_primitives (initiation_static_key toy_primitives example_initiation [36])
       ZeroNonce (Static example_initiation)
       (initiation_static_hash toy_primitives responder_consumed example_initiation) = Some [6]"
    "LookupPeer responder_consumed [6] = Some 0"
    "aead_Open toy_primitives
       (initiation_timestamp_key toy_primitives example_initiation [36]
          (precomputedStaticStatic (peer_handshake responder_consumed 0)))
       ZeroNonce (Timestamp example_initiation)
       (initiation_timestamp_hash toy_primitives responder_consumed example_initiation) =
       Some [0, 9]"
    "be_nat [0, 9] \<le> be_nat (lastTimestamp (peer_handshake responder_consumed 0))"
    by (simp_all add: consume_initiation_eval initiation_defs)
  have wrong_type: "Type (example_initiation\<lparr>Type := 2\<rparr>) \<noteq> MessageInitiationType"
    by (simp add: MessageInitiationType_def)
  have no_secret:
    "sharedSecret toy_primitives (staticIdentity_privateKey responder_transport)
       (Ephemeral (example_initiation\<lparr>Ephemeral := [0]\<rparr>)) = Inl errInvalidPublicKey"
    by (simp add: consume_initiation_eval)
  note accepted = ConsumeMessageInitiation_rejects_or_commits
    [where P = toy_primitives and HandshakeInitationRate = 20 and tr = responder_transport
       and msg = example_initiation and clock = 1021 and now = 1025 and ss = "[36]"
       and peerPK = "[6]" and p = 0 and ts = "[0, 9]",
     THEN conjunct2, THEN conjunct2, THEN conjunct2, THEN conjunct2, THEN conjunct2,
     THEN conjunct1, rule_format, THEN conjunct1]
  note flooded = ConsumeMessageInitiation_rejects_or_commits
    [where P = toy_primitives and HandshakeInitationRate = 20 and tr = responder_transport
       and msg = example_initiation and clock = 1020 and now = 1025 and ss = "[36]"
       and peerPK = "[6]" and p = 0 and ts = "[0, 9]",
     THEN conjunct2, THEN conjunct2, THEN conjunct2, THEN conjunct2, THEN conjunct1,
     rule_format]
  note replayed = ConsumeMessageInitiation_rejects_or_commits
    [where P = toy_primitives and HandshakeInitationRate = 20 and tr = responder_consumed
       and msg = example_initiation and clock = 2000 and now = 2001 and ss = "[36]"
       and peerPK = "[6]" and p = 0 and ts = "[0, 9]",
     THEN conjunct2, THEN conjunct2, THEN conjunct2, THEN conjunct2, THEN conjunct1,
     rule_format]
  note mistyped = ConsumeMessageInitiation_rejects_or_commits
    [where P = toy_primitives and HandshakeInitationRate = 20 and tr = responder_transport
       and msg = "example_initiation\<lparr>Type := 2\<rparr>" and clock = 1021 and now = 1025,
     THEN conjunct1, rule_format, OF wrong_type]
  note secretless = ConsumeMessageInitiation_rejects_or_commits
    [where P = toy_primitives and HandshakeInitationRate = 20 and tr = responder_transport
       and msg = "example_initiation\<lparr>Ephemeral := [0]\<rparr>" and clock = 1021 and now = 1025
       and e = errInvalidPublicKey,
     THEN conjunct2, THEN conjunct1, rule_format, OF no_secret]
  from accepted transcript fresh
  have c1: "ConsumeMessageInitiation toy_primitives 20 responder_transport example_initiation
      1021 1025 =
     (Some 0,
      set_handshake responder_transport 0
        (responder_handshake
           \<lparr>hash := [50], chainKey := [153], remoteIndex := 7, remoteEphemeral := [12],
            lastTimestamp := [0, 9], lastInitiationConsumption := 1025,
            state := handshakeInitiationConsumed\<rparr>))"
    by (simp add: committed)
  from flooded transcript flood
  have c2: "ConsumeMessageInitiation toy_primitives 20 responder_transport example_initiation
      1020 1025 = (None, responder_transport)"
    by simp
  from replayed transcript2
  have c3: "ConsumeMessageInitiation toy_primitives 20 responder_consumed example_initiation
      2000 2001 = (None, responder_consumed)"
    by simp
  from c1 c2 c3 mistyped secretless show ?thesis
    by (intro conjI)
qed

end
